theory Spec2Isabelle
  imports Main "HOL-Library.Word" "HOL-Library.Signed_Division"
begin

unbundle bit_operations_syntax

section \<open>The collaborators: OpenAL, libsndfile, the C library, the log\<close>

text \<open>
  \<^verbatim>\<open>audio.c\<close> does nothing but call its collaborators in a certain order and branch
  on what they return. The model therefore keeps a trace of every external call, with
  its arguments and its result, and takes the results from a \<open>backend\<close> record: one
  field per fallible call, so that a theorem about every backend is a theorem about
  every behaviour of the device, the decoder and the allocator.
\<close>

text \<open>
  A C pointer (\<^verbatim>\<open>ALCdevice*\<close>, \<^verbatim>\<open>ALCcontext*\<close>, \<^verbatim>\<open>SNDFILE*\<close>, \<^verbatim>\<open>void*\<close>): null, or the
  address of an object.
\<close>

datatype ptr = NULL | Addr nat

type_synonym ALuint = "32 word"
type_synonym ALenum = int

text \<open>The error codes of \<^verbatim>\<open>alGetError\<close>; \<^verbatim>\<open>AL_NO_ERROR\<close> is the absence of one.\<close>

datatype al_fault =
    AL_INVALID_NAME
  | AL_INVALID_ENUM
  | AL_INVALID_VALUE
  | AL_INVALID_OPERATION
  | AL_OUT_OF_MEMORY

abbreviation AL_NO_ERROR :: "al_fault option" where
  "AL_NO_ERROR \<equiv> None"

text \<open>Values of \<^verbatim>\<open>AL/al.h\<close>.\<close>

definition AL_BUFFER :: ALenum where "AL_BUFFER = 0x1009"
definition AL_SOURCE_STATE :: ALenum where "AL_SOURCE_STATE = 0x1010"
definition AL_INITIAL :: ALenum where "AL_INITIAL = 0x1011"
definition AL_PLAYING :: ALenum where "AL_PLAYING = 0x1012"
definition AL_PAUSED :: ALenum where "AL_PAUSED = 0x1013"
definition AL_STOPPED :: ALenum where "AL_STOPPED = 0x1014"
definition AL_FORMAT_MONO8 :: ALenum where "AL_FORMAT_MONO8 = 0x1100"
definition AL_FORMAT_MONO16 :: ALenum where "AL_FORMAT_MONO16 = 0x1101"
definition AL_FORMAT_STEREO8 :: ALenum where "AL_FORMAT_STEREO8 = 0x1102"
definition AL_FORMAT_STEREO16 :: ALenum where "AL_FORMAT_STEREO16 = 0x1103"

text \<open>Values of \<^verbatim>\<open>sndfile.h\<close>: the subtype of a format word, and the mask that selects it.\<close>

definition SF_FORMAT_PCM_S8 :: "32 word" where "SF_FORMAT_PCM_S8 = 0x0001"
definition SF_FORMAT_PCM_16 :: "32 word" where "SF_FORMAT_PCM_16 = 0x0002"
definition SF_FORMAT_PCM_24 :: "32 word" where "SF_FORMAT_PCM_24 = 0x0003"
definition SF_FORMAT_PCM_32 :: "32 word" where "SF_FORMAT_PCM_32 = 0x0004"
definition SF_FORMAT_PCM_U8 :: "32 word" where "SF_FORMAT_PCM_U8 = 0x0005"
definition SF_FORMAT_WAV :: "32 word" where "SF_FORMAT_WAV = 0x010000"
definition SF_FORMAT_SUBMASK :: "32 word" where "SF_FORMAT_SUBMASK = 0x0000FFFF"

text \<open>
  \<^verbatim>\<open>SF_INFO\<close>, the header as libsndfile reports it: \<^verbatim>\<open>sf_count_t frames; int samplerate;
  int channels; int format;\<close> (the fields \<^verbatim>\<open>sections\<close> and \<^verbatim>\<open>seekable\<close> are never read).
\<close>

record SF_INFO =
  sf_frames :: int
  sf_samplerate :: int
  sf_channels :: int
  sf_format :: "32 word"

text \<open>Every external call, with its arguments and then what it returned.\<close>

datatype event =
    Log_info string
  | Log_error string
  | AlcOpenDevice ptr
  | AlcCreateContext ptr ptr
  | AlcMakeContextCurrent ptr bool
  | AlcDestroyContext ptr
  | AlcCloseDevice ptr
  | AlGetError "al_fault option"
  | AlGenBuffers "al_fault + ALuint"
  | AlGenSources "al_fault + ALuint"
  | AlDeleteSources ALuint
  | AlDeleteBuffers ALuint
  | AlBufferData ALuint ALenum ptr int int "al_fault option"
  | AlSourcei ALuint ALenum ALuint
  | AlSourcePlay ALuint
  | AlGetSourcei ALuint ALenum ALenum
  | Sf_open string ptr
  | Sf_close ptr
  | Sf_readf_short ptr ptr int int
  | Calloc int int ptr
  | Free ptr
  | Sleep nat

text \<open>
  The world outside the program: the calls made so far, the error flag of the OpenAL
  context, and the blocks of the C heap that are allocated and not yet freed.
\<close>

record world =
  trace :: "event list"
  al_error :: "al_fault option"
  live :: "ptr list"

text \<open>
  What the collaborators answer. \<open>alGetSourcei_ret i\<close> is the state the voice reports
  at the \<open>i\<close>-th query of a playback; \<open>indeterminate_bit_depth\<close> is the value found in
  the local \<^verbatim>\<open>bit_depth\<close> when it is read without having been assigned.
\<close>

record backend =
  alcOpenDevice_ret :: ptr
  alcCreateContext_ret :: ptr
  alcMakeContextCurrent_ret :: bool
  alGenBuffers_ret :: "al_fault + ALuint"
  alGenSources_ret :: "al_fault + ALuint"
  sf_open_ret :: "ptr \<times> SF_INFO"
  calloc_ret :: ptr
  sf_readf_short_ret :: int
  alBufferData_ret :: "al_fault option"
  alGetSourcei_ret :: "nat \<Rightarrow> ALenum"
  indeterminate_bit_depth :: int

definition emit :: "event \<Rightarrow> world \<Rightarrow> world" where
  "emit e w = w\<lparr>trace := trace w @ [e]\<rparr>"

definition log_info :: "string \<Rightarrow> world \<Rightarrow> world" where
  "log_info msg w = emit (Log_info msg) w"

definition log_error :: "string \<Rightarrow> world \<Rightarrow> world" where
  "log_error msg w = emit (Log_error msg) w"

subsection \<open>The device and the context\<close>

definition alcOpenDevice :: "backend \<Rightarrow> world \<Rightarrow> ptr \<times> world" where
  "alcOpenDevice be w = (alcOpenDevice_ret be, emit (AlcOpenDevice (alcOpenDevice_ret be)) w)"

definition alcCreateContext :: "backend \<Rightarrow> ptr \<Rightarrow> world \<Rightarrow> ptr \<times> world" where
  "alcCreateContext be dev w =
     (alcCreateContext_ret be, emit (AlcCreateContext dev (alcCreateContext_ret be)) w)"

definition alcMakeContextCurrent :: "backend \<Rightarrow> ptr \<Rightarrow> world \<Rightarrow> bool \<times> world" where
  "alcMakeContextCurrent be ctx w =
     (alcMakeContextCurrent_ret be,
      emit (AlcMakeContextCurrent ctx (alcMakeContextCurrent_ret be)) w)"

definition alcDestroyContext :: "ptr \<Rightarrow> world \<Rightarrow> world" where
  "alcDestroyContext ctx w = emit (AlcDestroyContext ctx) w"

definition alcCloseDevice :: "ptr \<Rightarrow> world \<Rightarrow> world" where
  "alcCloseDevice dev w = emit (AlcCloseDevice dev) w"

section \<open>The program's own state\<close>

text \<open>The three file-scope variables of \<^verbatim>\<open>audio.c\<close>.\<close>

record globals =
  global_device :: ptr
  global_context :: ptr
  global_source :: ALuint

text \<open>
  Modelled from the spec: the return codes \<^verbatim>\<open>AUDIO_SUCCESS\<close> and \<^verbatim>\<open>AUDIO_FAILURE\<close> are
  declared in \<^verbatim>\<open>audio.h\<close>, which is not among the sources; the spec gives the two
  results "Success | Failure".
\<close>

datatype audio_status = AUDIO_SUCCESS | AUDIO_FAILURE

datatype internal_audio_subsystem_failure_statuses =
    IAS_CLEANUP_NORMALLY
  | IAS_MAKE_CONTEXT_CURRENT_FAILURE
  | IAS_CREATE_DEVICE_CONTEXT_FAILURE
  | IAS_OPEN_DEFAULT_DEVICE_FAILURE

section \<open>Subsystem lifecycle\<close>

text \<open>
  The \<^verbatim>\<open>switch\<close> of \<^verbatim>\<open>internal_audio_subsystem_cleanup\<close> has no \<^verbatim>\<open>break\<close> before its
  last label: control enters at the label of \<open>failure_status\<close> and falls through every
  later one. Each equation below is one label: its statement, then the next label.
\<close>

function internal_audio_subsystem_cleanup ::
  "backend \<Rightarrow> internal_audio_subsystem_failure_statuses \<Rightarrow> globals \<Rightarrow> world \<Rightarrow> world" where
  "internal_audio_subsystem_cleanup be IAS_CLEANUP_NORMALLY g w =
     internal_audio_subsystem_cleanup be IAS_MAKE_CONTEXT_CURRENT_FAILURE g
       (snd (alcMakeContextCurrent be NULL w))"
| "internal_audio_subsystem_cleanup be IAS_MAKE_CONTEXT_CURRENT_FAILURE g w =
     internal_audio_subsystem_cleanup be IAS_CREATE_DEVICE_CONTEXT_FAILURE g
       (alcDestroyContext (global_context g) w)"
| "internal_audio_subsystem_cleanup be IAS_CREATE_DEVICE_CONTEXT_FAILURE g w =
     internal_audio_subsystem_cleanup be IAS_OPEN_DEFAULT_DEVICE_FAILURE g
       (alcCloseDevice (global_device g) w)"
| "internal_audio_subsystem_cleanup be IAS_OPEN_DEFAULT_DEVICE_FAILURE g w = w"
  by pat_completeness auto
termination
  by (relation "measure (\<lambda>(be, s, g, w). case s of
        IAS_CLEANUP_NORMALLY \<Rightarrow> 3
      | IAS_MAKE_CONTEXT_CURRENT_FAILURE \<Rightarrow> 2
      | IAS_CREATE_DEVICE_CONTEXT_FAILURE \<Rightarrow> Suc 0
      | IAS_OPEN_DEFAULT_DEVICE_FAILURE \<Rightarrow> 0)") auto

definition audioInitSubsystem :: "backend \<Rightarrow> globals \<Rightarrow> world \<Rightarrow> audio_status \<times> globals \<times> world" where
  "audioInitSubsystem be g w =
     (let w = log_info ''Initialize audio subsystem'' w;
          (dev, w) = alcOpenDevice be w;
          g = g\<lparr>global_device := dev\<rparr>
      in if global_device g = NULL then
           let w = log_error ''Failed to open default audio device'' w;
               w = internal_audio_subsystem_cleanup be IAS_OPEN_DEFAULT_DEVICE_FAILURE g w
           in (AUDIO_FAILURE, g, w)
         else
           let (ctx, w) = alcCreateContext be (global_device g) w;
               g = g\<lparr>global_context := ctx\<rparr>
           in if global_context g = NULL then
                let w = log_error ''Failed to create device context'' w;
                    w = internal_audio_subsystem_cleanup be IAS_CREATE_DEVICE_CONTEXT_FAILURE g w
                in (AUDIO_FAILURE, g, w)
              else
                let (current, w) = alcMakeContextCurrent be (global_context g) w
                in if \<not> current then
                     let w = log_error ''Failed to make context current'' w;
                         w = internal_audio_subsystem_cleanup be
                               IAS_MAKE_CONTEXT_CURRENT_FAILURE g w
                     in (AUDIO_FAILURE, g, w)
                   else (AUDIO_SUCCESS, g, w))"

definition audioQuitSubsystem :: "backend \<Rightarrow> globals \<Rightarrow> world \<Rightarrow> world" where
  "audioQuitSubsystem be g w = internal_audio_subsystem_cleanup be IAS_CLEANUP_NORMALLY g w"

section \<open>Clip lifecycle\<close>

subsection \<open>The buffer, the voice, the file and the scratch memory\<close>

text \<open>
  \<^verbatim>\<open>alGetError\<close> returns the error flag and clears it. A failing OpenAL call sets the
  flag, unless an earlier error is still unread.
\<close>

definition alGetError :: "world \<Rightarrow> al_fault option \<times> world" where
  "alGetError w = (al_error w, (emit (AlGetError (al_error w)) w)\<lparr>al_error := AL_NO_ERROR\<rparr>)"

definition al_raise :: "al_fault \<Rightarrow> world \<Rightarrow> world" where
  "al_raise e w = (if al_error w = AL_NO_ERROR then w\<lparr>al_error := Some e\<rparr> else w)"

text \<open>
  \<^verbatim>\<open>alGenBuffers(1, &x)\<close> and \<^verbatim>\<open>alGenSources(1, &x)\<close> write a fresh name into \<^verbatim>\<open>x\<close>, or
  leave \<^verbatim>\<open>x\<close> as it is and set the error flag: the old value of \<^verbatim>\<open>x\<close> goes in, the new
  one comes out.
\<close>

definition alGenBuffers :: "backend \<Rightarrow> ALuint \<Rightarrow> world \<Rightarrow> ALuint \<times> world" where
  "alGenBuffers be old w =
     (case alGenBuffers_ret be of
        Inl e \<Rightarrow> (old, al_raise e (emit (AlGenBuffers (Inl e)) w))
      | Inr b \<Rightarrow> (b, emit (AlGenBuffers (Inr b)) w))"

definition alGenSources :: "backend \<Rightarrow> ALuint \<Rightarrow> world \<Rightarrow> ALuint \<times> world" where
  "alGenSources be old w =
     (case alGenSources_ret be of
        Inl e \<Rightarrow> (old, al_raise e (emit (AlGenSources (Inl e)) w))
      | Inr s \<Rightarrow> (s, emit (AlGenSources (Inr s)) w))"

definition alDeleteSources :: "ALuint \<Rightarrow> world \<Rightarrow> world" where
  "alDeleteSources s w = emit (AlDeleteSources s) w"

definition alDeleteBuffers :: "ALuint \<Rightarrow> world \<Rightarrow> world" where
  "alDeleteBuffers b w = emit (AlDeleteBuffers b) w"

text \<open>
  \<^verbatim>\<open>alBufferData\<close>. Its size parameter is an \<^verbatim>\<open>ALsizei\<close>, of 32 bits; the event keeps
  the size as the call site computes it, before that conversion, so the two agree only
  below \<open>2 ^ 31\<close>.
\<close>

definition alBufferData ::
  "backend \<Rightarrow> ALuint \<Rightarrow> ALenum \<Rightarrow> ptr \<Rightarrow> int \<Rightarrow> int \<Rightarrow> world \<Rightarrow> world" where
  "alBufferData be b fmt data sz freq w =
     (case alBufferData_ret be of
        None \<Rightarrow> emit (AlBufferData b fmt data sz freq None) w
      | Some e \<Rightarrow> al_raise e (emit (AlBufferData b fmt data sz freq (Some e)) w))"

definition sf_open :: "backend \<Rightarrow> string \<Rightarrow> world \<Rightarrow> (ptr \<times> SF_INFO) \<times> world" where
  "sf_open be path w = (sf_open_ret be, emit (Sf_open path (fst (sf_open_ret be))) w)"

definition sf_close :: "ptr \<Rightarrow> world \<Rightarrow> world" where
  "sf_close f w = emit (Sf_close f) w"

definition sf_readf_short :: "backend \<Rightarrow> ptr \<Rightarrow> ptr \<Rightarrow> int \<Rightarrow> world \<Rightarrow> int \<times> world" where
  "sf_readf_short be f data n w =
     (sf_readf_short_ret be, emit (Sf_readf_short f data n (sf_readf_short_ret be)) w)"

text \<open>
  \<^verbatim>\<open>calloc\<close> returns a block, which is then live until it is freed, or \<^verbatim>\<open>NULL\<close>. The
  event keeps the two arguments as the call site computes them, before their conversion
  to \<^verbatim>\<open>size_t\<close>.
\<close>

definition calloc :: "backend \<Rightarrow> int \<Rightarrow> int \<Rightarrow> world \<Rightarrow> ptr \<times> world" where
  "calloc be nmemb sz w =
     (calloc_ret be,
      (emit (Calloc nmemb sz (calloc_ret be)) w)
        \<lparr>live := (if calloc_ret be = NULL then live w else calloc_ret be # live w)\<rparr>)"

definition free :: "ptr \<Rightarrow> world \<Rightarrow> world" where
  "free p w = (emit (Free p) w)\<lparr>live := remove1 p (live w)\<rparr>"

definition alSourcei :: "ALuint \<Rightarrow> ALenum \<Rightarrow> ALuint \<Rightarrow> world \<Rightarrow> world" where
  "alSourcei s param v w = emit (AlSourcei s param v) w"

definition alSourcePlay :: "ALuint \<Rightarrow> world \<Rightarrow> world" where
  "alSourcePlay s w = emit (AlSourcePlay s) w"

text \<open>
  The \<open>i\<close>-th query of the state of the voice. The voice is the one \<open>audioLoadClip\<close>
  generated, so the query stores a state each time.
\<close>

definition alGetSourcei :: "backend \<Rightarrow> nat \<Rightarrow> ALuint \<Rightarrow> ALenum \<Rightarrow> world \<Rightarrow> ALenum \<times> world" where
  "alGetSourcei be i s param w =
     (alGetSourcei_ret be i, emit (AlGetSourcei s param (alGetSourcei_ret be i)) w)"

definition sleep :: "nat \<Rightarrow> world \<Rightarrow> world" where
  "sleep seconds w = emit (Sleep seconds) w"

subsection \<open>The clip\<close>

text \<open>
  Modelled from the spec: \<^verbatim>\<open>struct AudioClip\<close> is declared in \<^verbatim>\<open>audio.h\<close>, which is not
  among the sources. Its fields are the ones \<^verbatim>\<open>audio.c\<close> uses (\<open>file'\<close> is \<^verbatim>\<open>file\<close>, a keyword here); the spec gives \<open>frames\<close>,
  \<open>sampleRate\<close> and \<open>channels\<close> as integers without a width, so they are integers here and
  an assignment from the header keeps the value.
\<close>

record AudioClip =
  file' :: ptr
  buffer :: ALuint
  format :: ALenum
  frames :: int
  sample_rate :: int
  channels :: int

datatype internal_audio_track_failure_statuses =
    IAC_CLEANUP_NORMALLY
  | IAC_OPEN_CLIP_FILE_FAILURE
  | IAC_GENERATE_GLOBAL_SOURCE_FAILURE
  | IAC_GENERATE_CLIP_BUFFER_FAILURE
  | IAC_ALLOCATE_MEMORY_TO_TEMP_CLIP_DATA_BUFFER_FAILURE
  | IAC_READ_CLIP_FILE_COMPLETELY_FAILURE
  | IAC_COPY_CLIP_FILE_DATA_TO_CLIP_BUFFER_FAILURE

text \<open>
  \<^verbatim>\<open>internal_audio_clip_cleanup\<close>: the labels in the order of the \<^verbatim>\<open>switch\<close>, each one
  falling through to the next. The first three carry no statement.
\<close>

function internal_audio_clip_cleanup ::
  "internal_audio_track_failure_statuses \<Rightarrow> globals \<Rightarrow> AudioClip \<Rightarrow> world \<Rightarrow> world" where
  "internal_audio_clip_cleanup IAC_CLEANUP_NORMALLY g clip w =
     internal_audio_clip_cleanup IAC_COPY_CLIP_FILE_DATA_TO_CLIP_BUFFER_FAILURE g clip w"
| "internal_audio_clip_cleanup IAC_COPY_CLIP_FILE_DATA_TO_CLIP_BUFFER_FAILURE g clip w =
     internal_audio_clip_cleanup IAC_READ_CLIP_FILE_COMPLETELY_FAILURE g clip w"
| "internal_audio_clip_cleanup IAC_READ_CLIP_FILE_COMPLETELY_FAILURE g clip w =
     internal_audio_clip_cleanup IAC_ALLOCATE_MEMORY_TO_TEMP_CLIP_DATA_BUFFER_FAILURE g clip w"
| "internal_audio_clip_cleanup IAC_ALLOCATE_MEMORY_TO_TEMP_CLIP_DATA_BUFFER_FAILURE g clip w =
     internal_audio_clip_cleanup IAC_OPEN_CLIP_FILE_FAILURE g clip (sf_close (file' clip) w)"
| "internal_audio_clip_cleanup IAC_OPEN_CLIP_FILE_FAILURE g clip w =
     internal_audio_clip_cleanup IAC_GENERATE_GLOBAL_SOURCE_FAILURE g clip
       (alDeleteSources (global_source g) w)"
| "internal_audio_clip_cleanup IAC_GENERATE_GLOBAL_SOURCE_FAILURE g clip w =
     internal_audio_clip_cleanup IAC_GENERATE_CLIP_BUFFER_FAILURE g clip
       (alDeleteBuffers (buffer clip) w)"
| "internal_audio_clip_cleanup IAC_GENERATE_CLIP_BUFFER_FAILURE g clip w = w"
  by pat_completeness auto
termination
  by (relation "measure (\<lambda>(s, g, clip, w). case s of
        IAC_CLEANUP_NORMALLY \<Rightarrow> 6
      | IAC_COPY_CLIP_FILE_DATA_TO_CLIP_BUFFER_FAILURE \<Rightarrow> 5
      | IAC_READ_CLIP_FILE_COMPLETELY_FAILURE \<Rightarrow> 4
      | IAC_ALLOCATE_MEMORY_TO_TEMP_CLIP_DATA_BUFFER_FAILURE \<Rightarrow> 3
      | IAC_OPEN_CLIP_FILE_FAILURE \<Rightarrow> 2
      | IAC_GENERATE_GLOBAL_SOURCE_FAILURE \<Rightarrow> Suc 0
      | IAC_GENERATE_CLIP_BUFFER_FAILURE \<Rightarrow> 0)") auto

text \<open>
  The \<^verbatim>\<open>switch\<close> of \<^verbatim>\<open>audioLoadClip\<close> on the masked format word (lines 149 to 169),
  which sets the local \<^verbatim>\<open>bit_depth\<close> and \<^verbatim>\<open>clip->format\<close>. It has three labels and no
  \<^verbatim>\<open>default\<close>: for any other value neither is assigned, so \<^verbatim>\<open>bit_depth\<close> is read
  indeterminate afterwards and \<^verbatim>\<open>clip->format\<close> keeps the value the caller's struct had.
\<close>

definition format_switch :: "backend \<Rightarrow> SF_INFO \<Rightarrow> AudioClip \<Rightarrow> int \<times> AudioClip" where
  "format_switch be clip_file_info clip =
     (let pcm_format_mask = 0xF;
          selector = sf_format clip_file_info AND pcm_format_mask
      in if selector = SF_FORMAT_PCM_S8 \<or> selector = SF_FORMAT_PCM_U8 then
           (8, clip\<lparr>format :=
                 (if channels clip = 1 then AL_FORMAT_MONO8 else AL_FORMAT_STEREO8)\<rparr>)
         else if selector = SF_FORMAT_PCM_16 then
           (16, clip\<lparr>format :=
                  (if channels clip = 1 then AL_FORMAT_MONO16 else AL_FORMAT_STEREO16)\<rparr>)
         else (indeterminate_bit_depth be, clip))"

text \<open>\<^verbatim>\<open>audioLoadClip\<close>. \<^verbatim>\<open>/\<close> is C's division, which truncates.\<close>

definition audioLoadClip ::
  "backend \<Rightarrow> string \<Rightarrow> globals \<Rightarrow> AudioClip \<Rightarrow> world
     \<Rightarrow> audio_status \<times> globals \<times> AudioClip \<times> world" where
  "audioLoadClip be clip_file_name g clip w =
     (let w = log_info (''Load audio clip: '' @ clip_file_name) w;
          (_, w) = alGetError w;
          (b, w) = alGenBuffers be (buffer clip) w;
          clip = clip\<lparr>buffer := b\<rparr>;
          (err, w) = alGetError w
      in if err \<noteq> AL_NO_ERROR then
           let w = log_error ''Failed to generate clip buffer'' w;
               w = internal_audio_clip_cleanup IAC_GENERATE_CLIP_BUFFER_FAILURE g clip w
           in (AUDIO_FAILURE, g, clip, w)
         else
      let (s, w) = alGenSources be (global_source g) w;
          g = g\<lparr>global_source := s\<rparr>;
          (err, w) = alGetError w
      in if err \<noteq> AL_NO_ERROR then
           let w = log_error ''Failed to generate global source'' w;
               w = internal_audio_clip_cleanup IAC_GENERATE_GLOBAL_SOURCE_FAILURE g clip w
           in (AUDIO_FAILURE, g, clip, w)
         else
      let ((f, clip_file_info), w) = sf_open be clip_file_name w;
          clip = clip\<lparr>file' := f\<rparr>
      in if file' clip = NULL then
           let w = log_error ''Failed to open clip file'' w;
               w = internal_audio_clip_cleanup IAC_OPEN_CLIP_FILE_FAILURE g clip w
           in (AUDIO_FAILURE, g, clip, w)
         else
      let clip = clip\<lparr>frames := sf_frames clip_file_info\<rparr>;
          clip = clip\<lparr>sample_rate := sf_samplerate clip_file_info\<rparr>;
          clip = clip\<lparr>channels := sf_channels clip_file_info\<rparr>;
          (bit_depth, clip) = format_switch be clip_file_info clip;
          (clip_file_data, w) = calloc be (frames clip * channels clip) (bit_depth sdiv 2) w
      in if clip_file_data = NULL then
           let w = log_error ''Failed to allocate memory to temporary clip data buffer'' w;
               w = internal_audio_clip_cleanup
                     IAC_ALLOCATE_MEMORY_TO_TEMP_CLIP_DATA_BUFFER_FAILURE g clip w
           in (AUDIO_FAILURE, g, clip, w)
         else
      let (got, w) = sf_readf_short be (file' clip) clip_file_data (frames clip) w
      in if got \<noteq> frames clip then
           let w = log_error ''Failed to read clip file completely'' w;
               w = internal_audio_clip_cleanup IAC_READ_CLIP_FILE_COMPLETELY_FAILURE g clip w
           in (AUDIO_FAILURE, g, clip, w)
         else
      let w = alBufferData be (buffer clip) (format clip) clip_file_data
                ((frames clip * channels clip * bit_depth) sdiv 2) (sample_rate clip) w;
          w = free clip_file_data w;
          (err, w) = alGetError w
      in if err \<noteq> AL_NO_ERROR then
           let w = log_error ''Failed to copy clip file data to clip buffer'' w;
               w = internal_audio_clip_cleanup
                     IAC_COPY_CLIP_FILE_DATA_TO_CLIP_BUFFER_FAILURE g clip w
           in (AUDIO_FAILURE, g, clip, w)
         else (AUDIO_SUCCESS, g, clip, w))"

text \<open>
  \<^verbatim>\<open>audioPlayClip\<close>: a \<^verbatim>\<open>do ... while\<close> loop that need not end, so the loop returns an
  option and \<open>None\<close> is the call that never returns. \<open>i\<close> counts the queries made.
\<close>

partial_function (option) audioPlayClip_loop ::
  "backend \<Rightarrow> globals \<Rightarrow> nat \<Rightarrow> world \<Rightarrow> world option" where
  "audioPlayClip_loop be g i w =
     (let w = sleep 1 w;
          (source_state, w) = alGetSourcei be i (global_source g) AL_SOURCE_STATE w
      in if source_state = AL_PLAYING then audioPlayClip_loop be g (Suc i) w else Some w)"

declare audioPlayClip_loop.simps [code]

definition audioPlayClip :: "backend \<Rightarrow> globals \<Rightarrow> AudioClip \<Rightarrow> world \<Rightarrow> world option" where
  "audioPlayClip be g clip w =
     (let w = alSourcei (global_source g) AL_BUFFER (buffer clip) w;
          w = alSourcePlay (global_source g) w
      in audioPlayClip_loop be g 0 w)"

definition audioUnloadClip :: "globals \<Rightarrow> AudioClip \<Rightarrow> world \<Rightarrow> world" where
  "audioUnloadClip g clip w = internal_audio_clip_cleanup IAC_CLEANUP_NORMALLY g clip w"

section \<open>What the specification speaks of\<close>

subsection \<open>Resources acquired and released, read off the trace\<close>

datatype resource = Device_buffer ALuint | Playback_voice ALuint | Source_file ptr

fun acquisition :: "event \<Rightarrow> resource option" where
  "acquisition (AlGenBuffers r) = (case r of Inl e \<Rightarrow> None | Inr b \<Rightarrow> Some (Device_buffer b))"
| "acquisition (AlGenSources r) = (case r of Inl e \<Rightarrow> None | Inr s \<Rightarrow> Some (Playback_voice s))"
| "acquisition (Sf_open path f) = (if f = NULL then None else Some (Source_file f))"
| "acquisition _ = None"

fun release :: "event \<Rightarrow> resource option" where
  "release (AlDeleteBuffers b) = Some (Device_buffer b)"
| "release (AlDeleteSources s) = Some (Playback_voice s)"
| "release (Sf_close f) = Some (Source_file f)"
| "release _ = None"

definition acquired :: "event list \<Rightarrow> resource list" where
  "acquired es = List.map_filter acquisition es"

definition released :: "event list \<Rightarrow> resource list" where
  "released es = List.map_filter release es"

text \<open>
  The steps of LoadClip are numbered as in the specification: 1 the buffer, 2 the voice,
  3 the file, 4 the header, 5 the scratch memory, 6 the read, 7 the upload. The failure
  point of a load is the first step at which the backend fails; step 4 has none.
\<close>

definition failure_point :: "backend \<Rightarrow> nat option" where
  "failure_point be =
     (if isl (alGenBuffers_ret be) then Some 1
      else if isl (alGenSources_ret be) then Some 2
      else if fst (sf_open_ret be) = NULL then Some 3
      else if calloc_ret be = NULL then Some 5
      else if sf_readf_short_ret be \<noteq> sf_frames (snd (sf_open_ret be)) then Some 6
      else if alBufferData_ret be \<noteq> AL_NO_ERROR then Some 7
      else None)"

text \<open>The resources that the steps before \<open>k\<close> hand out, in the order of the steps.\<close>

definition acquired_before :: "backend \<Rightarrow> nat \<Rightarrow> resource list" where
  "acquired_before be k =
     (if 1 < k then (case alGenBuffers_ret be of Inl e \<Rightarrow> [] | Inr b \<Rightarrow> [Device_buffer b])
      else []) @
     (if 2 < k then (case alGenSources_ret be of Inl e \<Rightarrow> [] | Inr s \<Rightarrow> [Playback_voice s])
      else []) @
     (if 3 < k \<and> fst (sf_open_ret be) \<noteq> NULL then [Source_file (fst (sf_open_ret be))]
      else [])"

subsection \<open>The format table and the byte count\<close>

text \<open>
  The bit depth a header declares: the subtype of its format word is 8-bit PCM, signed or
  unsigned, or 16-bit PCM, or something the specification does not support.
\<close>

definition header_bit_depth :: "SF_INFO \<Rightarrow> int option" where
  "header_bit_depth info =
     (let subtype = sf_format info AND SF_FORMAT_SUBMASK
      in if subtype = SF_FORMAT_PCM_S8 \<or> subtype = SF_FORMAT_PCM_U8 then Some 8
         else if subtype = SF_FORMAT_PCM_16 then Some 16
         else None)"

text \<open>The table of section 4.2 of the specification: four entries, and nothing else.\<close>

definition spec_format_table :: "int \<Rightarrow> int \<Rightarrow> ALenum option" where
  "spec_format_table bits chans =
     (if bits = 8 \<and> chans = 1 then Some AL_FORMAT_MONO8
      else if bits = 8 \<and> chans = 2 then Some AL_FORMAT_STEREO8
      else if bits = 16 \<and> chans = 1 then Some AL_FORMAT_MONO16
      else if bits = 16 \<and> chans = 2 then Some AL_FORMAT_STEREO16
      else None)"

text \<open>"bytesPerSample is 1 for 8-bit and 2 for 16-bit encodings".\<close>

definition bytesPerSample :: "int \<Rightarrow> int" where
  "bytesPerSample bits = bits div 8"

subsection \<open>Playback\<close>

text \<open>
  \<open>polls be g i n\<close>: the calls of \<open>n\<close> rounds of the playback loop, from the \<open>i\<close>-th
  query on; each round is one \<^verbatim>\<open>sleep(1)\<close> and then one query of the voice.
\<close>

definition polls :: "backend \<Rightarrow> globals \<Rightarrow> nat \<Rightarrow> nat \<Rightarrow> event list" where
  "polls be g i n =
     concat (map (\<lambda>k. [Sleep 1, AlGetSourcei (global_source g) AL_SOURCE_STATE
                                  (alGetSourcei_ret be k)]) [i..<i + n])"

subsection \<open>Concrete inputs\<close>

text \<open>
  The globals before the subsystem is initialised and after, with no voice yet; a world
  in which nothing has happened; a clip struct that has not been loaded.
\<close>

definition g_start :: globals where
  "g_start = \<lparr>global_device = NULL, global_context = NULL, global_source = 0\<rparr>"

definition g0 :: globals where
  "g0 = \<lparr>global_device = Addr 1, global_context = Addr 2, global_source = 0\<rparr>"

definition w0 :: world where
  "w0 = \<lparr>trace = [], al_error = AL_NO_ERROR, live = []\<rparr>"

definition clip0 :: AudioClip where
  "clip0 = \<lparr>file' = NULL, buffer = 0, format = 0, frames = 0, sample_rate = 0, channels = 0\<rparr>"

text \<open>
  Scenario B of the specification: a well-formed mono 16-bit file of 4410 frames at
  44100 Hz, on a backend where every call succeeds and the voice reports playing at the
  first two queries and stopped from then on.
\<close>

definition valid_mono16 :: backend where
  "valid_mono16 =
     \<lparr>alcOpenDevice_ret = Addr 1,
      alcCreateContext_ret = Addr 2,
      alcMakeContextCurrent_ret = True,
      alGenBuffers_ret = Inr 5,
      alGenSources_ret = Inr 7,
      sf_open_ret = (Addr 3, \<lparr>sf_frames = 4410, sf_samplerate = 44100, sf_channels = 1,
                         sf_format = SF_FORMAT_WAV OR SF_FORMAT_PCM_16\<rparr>),
      calloc_ret = Addr 4096,
      sf_readf_short_ret = 4410,
      alBufferData_ret = AL_NO_ERROR,
      alGetSourcei_ret = (\<lambda>i. if i < 2 then AL_PLAYING else AL_STOPPED),
      indeterminate_bit_depth = 0\<rparr>"

text \<open>The globals and the clip that a successful load of that file leaves.\<close>

definition g1 :: globals where
  "g1 = g0\<lparr>global_source := 7\<rparr>"

definition clip1 :: AudioClip where
  "clip1 = \<lparr>file' = Addr 3, buffer = 5, format = AL_FORMAT_MONO16, frames = 4410,
            sample_rate = 44100, channels = 1\<rparr>"

text \<open>Scenario C: the header declares 1000 frames and the file holds 500.\<close>

definition truncated :: backend where
  "truncated =
     valid_mono16\<lparr>sf_open_ret := (Addr 3, \<lparr>sf_frames = 1000, sf_samplerate = 44100, sf_channels = 1,
                                      sf_format = SF_FORMAT_WAV OR SF_FORMAT_PCM_16\<rparr>),
                  sf_readf_short_ret := 500\<rparr>"

text \<open>A 24-bit PCM file; every call succeeds.\<close>

definition pcm24 :: backend where
  "pcm24 =
     valid_mono16\<lparr>sf_open_ret := (Addr 3, \<lparr>sf_frames = 4410, sf_samplerate = 44100, sf_channels = 1,
                                      sf_format = SF_FORMAT_WAV OR SF_FORMAT_PCM_24\<rparr>)\<rparr>"

text \<open>A path that cannot be opened.\<close>

definition missing_file :: backend where
  "missing_file = valid_mono16\<lparr>sf_open_ret := (NULL, snd (sf_open_ret valid_mono16))\<rparr>"

text \<open>A voice that is not playing when it is first asked, and one that never stops.\<close>

definition already_stopped :: backend where
  "already_stopped = valid_mono16\<lparr>alGetSourcei_ret := (\<lambda>i. AL_STOPPED)\<rparr>"

definition never_stops :: backend where
  "never_stops = valid_mono16\<lparr>alGetSourcei_ret := (\<lambda>i. AL_PLAYING)\<rparr>"

text \<open>A device that rejects the upload.\<close>

definition upload_rejected :: backend where
  "upload_rejected = valid_mono16\<lparr>alBufferData_ret := Some AL_INVALID_VALUE\<rparr>"

text \<open>A 16-bit file of three channels; every call succeeds.\<close>

definition three_channels :: backend where
  "three_channels =
     valid_mono16\<lparr>sf_open_ret := (Addr 3, \<lparr>sf_frames = 4410, sf_samplerate = 44100, sf_channels = 3,
                                      sf_format = SF_FORMAT_WAV OR SF_FORMAT_PCM_16\<rparr>)\<rparr>"

section \<open>How the calls run\<close>

lemmas subsystem_calls =
  emit_def log_info_def log_error_def alcOpenDevice_def alcCreateContext_def
  alcMakeContextCurrent_def alcDestroyContext_def alcCloseDevice_def

lemmas clip_calls =
  emit_def log_info_def log_error_def alGetError_def al_raise_def alGenBuffers_def
  alGenSources_def alDeleteSources_def alDeleteBuffers_def alBufferData_def sf_open_def
  sf_close_def sf_readf_short_def calloc_def free_def

lemmas fixtures =
  g_start_def g0_def g1_def w0_def clip0_def clip1_def valid_mono16_def truncated_def pcm24_def
  missing_file_def three_channels_def already_stopped_def never_stops_def
  upload_rejected_def

subsection \<open>The runs of \<open>audioLoadClip\<close>, one for each way it can go\<close>

lemma load_at_1:
  assumes "alGenBuffers_ret be = Inl e"
  shows "audioLoadClip be path g clip w =
     (AUDIO_FAILURE, g, clip,
      w\<lparr>trace := trace w @
           [Log_info (''Load audio clip: '' @ path), AlGetError (al_error w),
            AlGenBuffers (Inl e), AlGetError (Some e),
            Log_error ''Failed to generate clip buffer''],
        al_error := AL_NO_ERROR\<rparr>)"
  using assms by (simp add: audioLoadClip_def clip_calls Let_def)

lemma load_at_2:
  assumes "alGenBuffers_ret be = Inr b" "alGenSources_ret be = Inl e"
  shows "audioLoadClip be path g clip w =
     (AUDIO_FAILURE, g, clip\<lparr>buffer := b\<rparr>,
      w\<lparr>trace := trace w @
           [Log_info (''Load audio clip: '' @ path), AlGetError (al_error w),
            AlGenBuffers (Inr b), AlGetError AL_NO_ERROR,
            AlGenSources (Inl e), AlGetError (Some e),
            Log_error ''Failed to generate global source'',
            AlDeleteBuffers b],
        al_error := AL_NO_ERROR\<rparr>)"
  using assms by (simp add: audioLoadClip_def clip_calls Let_def)

lemma load_at_3:
  assumes "alGenBuffers_ret be = Inr b" "alGenSources_ret be = Inr s"
    "sf_open_ret be = (NULL, info)"
  shows "audioLoadClip be path g clip w =
     (AUDIO_FAILURE, g\<lparr>global_source := s\<rparr>, clip\<lparr>buffer := b, file' := NULL\<rparr>,
      w\<lparr>trace := trace w @
           [Log_info (''Load audio clip: '' @ path), AlGetError (al_error w),
            AlGenBuffers (Inr b), AlGetError AL_NO_ERROR,
            AlGenSources (Inr s), AlGetError AL_NO_ERROR,
            Sf_open path NULL, Log_error ''Failed to open clip file'',
            AlDeleteSources s, AlDeleteBuffers b],
        al_error := AL_NO_ERROR\<rparr>)"
  using assms by (simp add: audioLoadClip_def clip_calls Let_def)

lemmas sf_consts = SF_FORMAT_PCM_S8_def SF_FORMAT_PCM_16_def SF_FORMAT_PCM_24_def
  SF_FORMAT_PCM_U8_def SF_FORMAT_WAV_def SF_FORMAT_SUBMASK_def

lemma format_switch_keeps:
  "file' (snd (format_switch be info c)) = file' c"
  "buffer (snd (format_switch be info c)) = buffer c"
  "frames (snd (format_switch be info c)) = frames c"
  "sample_rate (snd (format_switch be info c)) = sample_rate c"
  "channels (snd (format_switch be info c)) = channels c"
  by (simp_all add: format_switch_def Let_def)

lemma load_at_5:
  assumes "alGenBuffers_ret be = Inr b" "alGenSources_ret be = Inr s"
    "sf_open_ret be = (f, info)" "f \<noteq> NULL" "calloc_ret be = NULL"
    and sw: "sw = format_switch be info
              (clip\<lparr>buffer := b, file' := f, frames := sf_frames info,
                    sample_rate := sf_samplerate info, channels := sf_channels info\<rparr>)"
  shows "audioLoadClip be path g clip w =
     (AUDIO_FAILURE, g\<lparr>global_source := s\<rparr>, snd sw,
      w\<lparr>trace := trace w @
           [Log_info (''Load audio clip: '' @ path), AlGetError (al_error w),
            AlGenBuffers (Inr b), AlGetError AL_NO_ERROR,
            AlGenSources (Inr s), AlGetError AL_NO_ERROR,
            Sf_open path f,
            Calloc (sf_frames info * sf_channels info) (fst sw sdiv 2) NULL,
            Log_error ''Failed to allocate memory to temporary clip data buffer'',
            Sf_close f, AlDeleteSources s, AlDeleteBuffers b],
        al_error := AL_NO_ERROR\<rparr>)"
  using assms(1-5) unfolding sw
  by (simp add: audioLoadClip_def clip_calls Let_def split_beta format_switch_keeps)

lemma load_at_6:
  assumes "alGenBuffers_ret be = Inr b" "alGenSources_ret be = Inr s"
    "sf_open_ret be = (f, info)" "f \<noteq> NULL" "calloc_ret be = p" "p \<noteq> NULL"
    "sf_readf_short_ret be = got" "got \<noteq> sf_frames info"
    and sw: "sw = format_switch be info
              (clip\<lparr>buffer := b, file' := f, frames := sf_frames info,
                    sample_rate := sf_samplerate info, channels := sf_channels info\<rparr>)"
  shows "audioLoadClip be path g clip w =
     (AUDIO_FAILURE, g\<lparr>global_source := s\<rparr>, snd sw,
      w\<lparr>trace := trace w @
           [Log_info (''Load audio clip: '' @ path), AlGetError (al_error w),
            AlGenBuffers (Inr b), AlGetError AL_NO_ERROR,
            AlGenSources (Inr s), AlGetError AL_NO_ERROR,
            Sf_open path f,
            Calloc (sf_frames info * sf_channels info) (fst sw sdiv 2) p,
            Sf_readf_short f p (sf_frames info) got,
            Log_error ''Failed to read clip file completely'',
            Sf_close f, AlDeleteSources s, AlDeleteBuffers b],
        al_error := AL_NO_ERROR,
        live := p # live w\<rparr>)"
  using assms(1-8) unfolding sw
  by (simp add: audioLoadClip_def clip_calls Let_def split_beta format_switch_keeps)

lemma load_at_7:
  assumes "alGenBuffers_ret be = Inr b" "alGenSources_ret be = Inr s"
    "sf_open_ret be = (f, info)" "f \<noteq> NULL" "calloc_ret be = p" "p \<noteq> NULL"
    "sf_readf_short_ret be = sf_frames info" "alBufferData_ret be = Some e"
    and sw: "sw = format_switch be info
              (clip\<lparr>buffer := b, file' := f, frames := sf_frames info,
                    sample_rate := sf_samplerate info, channels := sf_channels info\<rparr>)"
  shows "audioLoadClip be path g clip w =
     (AUDIO_FAILURE, g\<lparr>global_source := s\<rparr>, snd sw,
      w\<lparr>trace := trace w @
           [Log_info (''Load audio clip: '' @ path), AlGetError (al_error w),
            AlGenBuffers (Inr b), AlGetError AL_NO_ERROR,
            AlGenSources (Inr s), AlGetError AL_NO_ERROR,
            Sf_open path f,
            Calloc (sf_frames info * sf_channels info) (fst sw sdiv 2) p,
            Sf_readf_short f p (sf_frames info) (sf_frames info),
            AlBufferData b (format (snd sw)) p
              ((sf_frames info * sf_channels info * fst sw) sdiv 2) (sf_samplerate info)
              (Some e),
            Free p, AlGetError (Some e),
            Log_error ''Failed to copy clip file data to clip buffer'',
            Sf_close f, AlDeleteSources s, AlDeleteBuffers b],
        al_error := AL_NO_ERROR,
        live := live w\<rparr>)"
  using assms(1-8) unfolding sw
  by (simp add: audioLoadClip_def clip_calls Let_def split_beta format_switch_keeps)

lemma load_ok:
  assumes "alGenBuffers_ret be = Inr b" "alGenSources_ret be = Inr s"
    "sf_open_ret be = (f, info)" "f \<noteq> NULL" "calloc_ret be = p" "p \<noteq> NULL"
    "sf_readf_short_ret be = sf_frames info" "alBufferData_ret be = AL_NO_ERROR"
    and sw: "sw = format_switch be info
              (clip\<lparr>buffer := b, file' := f, frames := sf_frames info,
                    sample_rate := sf_samplerate info, channels := sf_channels info\<rparr>)"
  shows "audioLoadClip be path g clip w =
     (AUDIO_SUCCESS, g\<lparr>global_source := s\<rparr>, snd sw,
      w\<lparr>trace := trace w @
           [Log_info (''Load audio clip: '' @ path), AlGetError (al_error w),
            AlGenBuffers (Inr b), AlGetError AL_NO_ERROR,
            AlGenSources (Inr s), AlGetError AL_NO_ERROR,
            Sf_open path f,
            Calloc (sf_frames info * sf_channels info) (fst sw sdiv 2) p,
            Sf_readf_short f p (sf_frames info) (sf_frames info),
            AlBufferData b (format (snd sw)) p
              ((sf_frames info * sf_channels info * fst sw) sdiv 2) (sf_samplerate info)
              AL_NO_ERROR,
            Free p, AlGetError AL_NO_ERROR],
        al_error := AL_NO_ERROR,
        live := live w\<rparr>)"
  using assms(1-8) unfolding sw
  by (simp add: audioLoadClip_def clip_calls Let_def split_beta format_switch_keeps)

lemma failure_point_cases [consumes 1, case_names at_buffer at_voice at_file at_scratch at_read at_upload]:
  assumes "failure_point be = Some k"
  obtains
    e where "k = 1" "alGenBuffers_ret be = Inl e"
  | b e where "k = 2" "alGenBuffers_ret be = Inr b" "alGenSources_ret be = Inl e"
  | b s info where "k = 3" "alGenBuffers_ret be = Inr b" "alGenSources_ret be = Inr s"
      "sf_open_ret be = (NULL, info)"
  | b s f info where "k = 5" "alGenBuffers_ret be = Inr b" "alGenSources_ret be = Inr s"
      "sf_open_ret be = (f, info)" "f \<noteq> NULL" "calloc_ret be = NULL"
  | b s f info p got where "k = 6" "alGenBuffers_ret be = Inr b" "alGenSources_ret be = Inr s"
      "sf_open_ret be = (f, info)" "f \<noteq> NULL" "calloc_ret be = p" "p \<noteq> NULL"
      "sf_readf_short_ret be = got" "got \<noteq> sf_frames info"
  | b s f info p e where "k = 7" "alGenBuffers_ret be = Inr b" "alGenSources_ret be = Inr s"
      "sf_open_ret be = (f, info)" "f \<noteq> NULL" "calloc_ret be = p" "p \<noteq> NULL"
      "sf_readf_short_ret be = sf_frames info" "alBufferData_ret be = Some e"
  using assms
  by (cases "alGenBuffers_ret be"; cases "alGenSources_ret be"; cases "sf_open_ret be";
      cases "alBufferData_ret be")
     (auto simp add: failure_point_def split: if_splits)

lemma no_failure_point:
  assumes "failure_point be = None"
  obtains b s f info p where
    "alGenBuffers_ret be = Inr b" "alGenSources_ret be = Inr s" "sf_open_ret be = (f, info)"
    "f \<noteq> NULL" "calloc_ret be = p" "p \<noteq> NULL" "sf_readf_short_ret be = sf_frames info"
    "alBufferData_ret be = AL_NO_ERROR"
  using assms
  by (cases "alGenBuffers_ret be"; cases "alGenSources_ret be"; cases "sf_open_ret be")
     (auto simp add: failure_point_def split: if_splits)

lemmas trace_reading = acquired_def released_def acquired_before_def

lemma selector_of_subtype:
  assumes "(x :: 32 word) AND 0xFFFF = c"
  shows "x AND 0xF = c AND 0xF"
proof -
  have "x AND 0xF = (x AND 0xFFFF) AND 0xF"
    by (simp add: and.assoc)
  with assms show ?thesis by simp
qed

lemma format_switch_8:
  assumes "header_bit_depth info = Some 8"
  shows "format_switch be info c =
           (8, c\<lparr>format := (if channels c = 1 then AL_FORMAT_MONO8 else AL_FORMAT_STEREO8)\<rparr>)"
proof -
  from assms have "sf_format info AND 0xFFFF = 1 \<or> sf_format info AND 0xFFFF = 5"
    by (simp add: header_bit_depth_def sf_consts Let_def split: if_splits)
  then have "sf_format info AND 0xF = 1 \<or> sf_format info AND 0xF = 5"
    using selector_of_subtype [of "sf_format info" 1] selector_of_subtype [of "sf_format info" 5]
    by auto
  then show ?thesis
    by (auto simp add: format_switch_def sf_consts Let_def)
qed

lemma format_switch_16:
  assumes "header_bit_depth info = Some 16"
  shows "format_switch be info c =
           (16, c\<lparr>format := (if channels c = 1 then AL_FORMAT_MONO16 else AL_FORMAT_STEREO16)\<rparr>)"
proof -
  from assms have "sf_format info AND 0xFFFF = 2"
    by (simp add: header_bit_depth_def sf_consts Let_def split: if_splits)
  then have "sf_format info AND 0xF = 2"
    using selector_of_subtype [of "sf_format info" 2] by simp
  then show ?thesis
    by (simp add: format_switch_def sf_consts Let_def)
qed

lemma header_bit_depth_cases:
  assumes "header_bit_depth info = Some bits"
  shows "bits = 8 \<or> bits = 16"
  using assms by (auto simp add: header_bit_depth_def Let_def split: if_splits)

lemma header_read:
  assumes "failure_point be \<notin> {Some 1, Some 2, Some 3}"
  obtains b s f info where
    "alGenBuffers_ret be = Inr b" "alGenSources_ret be = Inr s" "sf_open_ret be = (f, info)"
    "f \<noteq> NULL"
  using assms
  by (cases "alGenBuffers_ret be"; cases "alGenSources_ret be"; cases "sf_open_ret be")
     (auto simp add: failure_point_def split: if_splits)

lemma load_after_header:
  assumes ok: "alGenBuffers_ret be = Inr b" "alGenSources_ret be = Inr s"
      "sf_open_ret be = (f, info)" "f \<noteq> NULL"
    and run: "audioLoadClip be path g clip w = (rc, g', clip', w')"
  shows "clip' = snd (format_switch be info
              (clip\<lparr>buffer := b, file' := f, frames := sf_frames info,
                    sample_rate := sf_samplerate info, channels := sf_channels info\<rparr>))"
proof (cases "calloc_ret be = NULL")
  case True
  from run load_at_5 [OF ok True refl, of path g clip w] show ?thesis by simp
next
  case scratch: False
  show ?thesis
  proof (cases "sf_readf_short_ret be = sf_frames info")
    case False
    from run load_at_6 [OF ok refl scratch refl False refl, of path g clip w]
    show ?thesis by simp
  next
    case read: True
    show ?thesis
    proof (cases "alBufferData_ret be")
      case None
      from run load_ok [OF ok refl scratch read None refl, of path g clip w]
      show ?thesis by simp
    next
      case (Some e)
      from run load_at_7 [OF ok refl scratch read Some refl, of path g clip w]
      show ?thesis by simp
    qed
  qed
qed

lemma load_succeeds:
  assumes "failure_point be = None"
  shows "fst (audioLoadClip be path g clip w) = AUDIO_SUCCESS"
proof -
  from assms obtain b s f info p where ok:
    "alGenBuffers_ret be = Inr b" "alGenSources_ret be = Inr s" "sf_open_ret be = (f, info)"
    "f \<noteq> NULL" "calloc_ret be = p" "p \<noteq> NULL" "sf_readf_short_ret be = sf_frames info"
    "alBufferData_ret be = AL_NO_ERROR"
    by (rule no_failure_point)
  from load_ok [OF ok refl, of path g clip w] show ?thesis by simp
qed

lemma load_fails:
  assumes "failure_point be = Some k"
  shows "fst (audioLoadClip be path g clip w) = AUDIO_FAILURE"
  using assms
proof (cases rule: failure_point_cases)
  case (at_buffer e)
  from load_at_1 [OF at_buffer(2), of path g clip w] show ?thesis by simp
next
  case (at_voice b e)
  from load_at_2 [OF at_voice(2-), of path g clip w] show ?thesis by simp
next
  case (at_file b s info)
  from load_at_3 [OF at_file(2-), of path g clip w] show ?thesis by simp
next
  case (at_scratch b s f info)
  from load_at_5 [OF at_scratch(2-) refl, of path g clip w] show ?thesis by simp
next
  case (at_read b s f info p got)
  from load_at_6 [OF at_read(2-) refl, of path g clip w] show ?thesis by simp
next
  case (at_upload b s f info p e)
  from load_at_7 [OF at_upload(2-) refl, of path g clip w] show ?thesis by simp
qed

subsection \<open>The scratch memory: its size, and what becomes of it\<close>

lemma sdiv_2_exact: "(2 * x) sdiv 2 = (x :: int)"
  by (simp add: signed_divide_int_def sgn_mult abs_mult mult_sgn_abs)

lemma read_failure_never_frees:
  assumes fp: "failure_point be = Some 6"
      and run: "audioLoadClip be path g clip w = (rc, g', clip', w')"
  shows "live w' = calloc_ret be # live w \<and>
         (\<exists>new. trace w' = trace w @ new \<and> (\<forall>p. Free p \<notin> set new))"
  using fp
proof (cases rule: failure_point_cases)
  case (at_read b s f info p got)
  from run load_at_6 [OF at_read(2-) refl, of path g clip w] at_read show ?thesis
    by auto
qed simp_all

text \<open>
  The sizes of a successful load, for a file small enough that neither the products nor
  the conversions of the arguments can wrap.
\<close>

lemma sizes_are_fourfold:
  assumes run: "audioLoadClip be path g clip w = (AUDIO_SUCCESS, g', clip', w')"
      and bits: "header_bit_depth (snd (sf_open_ret be)) = Some bits"
      and small: "0 \<le> sf_frames (snd (sf_open_ret be))" "0 \<le> sf_channels (snd (sf_open_ret be))"
        "sf_frames (snd (sf_open_ret be)) * sf_channels (snd (sf_open_ret be)) * bits < 2 ^ 31"
  shows "Calloc (frames clip' * channels clip') (4 * bytesPerSample bits) (calloc_ret be)
           \<in> set (trace w') \<and>
         AlBufferData (buffer clip') (format clip') (calloc_ret be)
           (4 * (frames clip' * channels clip' * bytesPerSample bits)) (sample_rate clip')
           AL_NO_ERROR \<in> set (trace w')"
proof -
  have "failure_point be = None"
  proof (cases "failure_point be")
    case (Some k)
    from load_fails [OF this, of path g clip w] run show ?thesis by simp
  qed simp
  then obtain b s f info p where ok:
    "alGenBuffers_ret be = Inr b" "alGenSources_ret be = Inr s" "sf_open_ret be = (f, info)"
    "f \<noteq> NULL" "calloc_ret be = p" "p \<noteq> NULL" "sf_readf_short_ret be = sf_frames info"
    "alBufferData_ret be = AL_NO_ERROR"
    by (rule no_failure_point)
  from bits ok(3) have bits': "header_bit_depth info = Some bits"
    by simp
  have eight: "(x * 8) sdiv 2 = 4 * x" and sixteen: "(x * 16) sdiv 2 = 8 * x" for x :: int
    using sdiv_2_exact [of "4 * x"] sdiv_2_exact [of "8 * x"] by (simp_all add: mult.commute)
  from header_bit_depth_cases [OF bits'] show ?thesis
  proof
    assume "bits = 8"
    with bits' run load_ok [OF ok refl, of path g clip w] ok(5) show ?thesis
      by (auto simp add: format_switch_8 bytesPerSample_def eight)
  next
    assume "bits = 16"
    with bits' run load_ok [OF ok refl, of path g clip w] ok(5) show ?thesis
      by (auto simp add: format_switch_16 bytesPerSample_def sixteen)
  qed
qed

subsection \<open>The runs on the concrete inputs\<close>

lemma run_valid_mono16:
  "audioLoadClip valid_mono16 ''valid_mono16.wav'' g0 clip0 w0 =
     (AUDIO_SUCCESS, g0\<lparr>global_source := 7\<rparr>,
      \<lparr>file' = Addr 3, buffer = 5, format = AL_FORMAT_MONO16, frames = 4410,
        sample_rate = 44100, channels = 1\<rparr>,
      \<lparr>trace =
         [Log_info ''Load audio clip: valid_mono16.wav'', AlGetError AL_NO_ERROR,
          AlGenBuffers (Inr 5), AlGetError AL_NO_ERROR, AlGenSources (Inr 7),
          AlGetError AL_NO_ERROR, Sf_open ''valid_mono16.wav'' (Addr 3),
          Calloc 4410 8 (Addr 4096), Sf_readf_short (Addr 3) (Addr 4096) 4410 4410,
          AlBufferData 5 AL_FORMAT_MONO16 (Addr 4096) 35280 44100 AL_NO_ERROR,
          Free (Addr 4096), AlGetError AL_NO_ERROR],
       al_error = AL_NO_ERROR, live = []\<rparr>)"
  by (simp add: audioLoadClip_def format_switch_def clip_calls Let_def fixtures sf_consts)

lemma run_three_channels:
  "audioLoadClip three_channels ''surround.wav'' g0 clip0 w0 =
     (AUDIO_SUCCESS, g0\<lparr>global_source := 7\<rparr>,
      \<lparr>file' = Addr 3, buffer = 5, format = AL_FORMAT_STEREO16, frames = 4410,
        sample_rate = 44100, channels = 3\<rparr>,
      \<lparr>trace =
         [Log_info ''Load audio clip: surround.wav'', AlGetError AL_NO_ERROR,
          AlGenBuffers (Inr 5), AlGetError AL_NO_ERROR, AlGenSources (Inr 7),
          AlGetError AL_NO_ERROR, Sf_open ''surround.wav'' (Addr 3),
          Calloc 13230 8 (Addr 4096), Sf_readf_short (Addr 3) (Addr 4096) 4410 4410,
          AlBufferData 5 AL_FORMAT_STEREO16 (Addr 4096) 105840 44100 AL_NO_ERROR,
          Free (Addr 4096), AlGetError AL_NO_ERROR],
       al_error = AL_NO_ERROR, live = []\<rparr>)"
  by (simp add: audioLoadClip_def format_switch_def clip_calls Let_def fixtures sf_consts)

lemma run_upload_rejected:
  "audioLoadClip upload_rejected ''valid_mono16.wav'' g0 clip0 w0 =
     (AUDIO_FAILURE, g0\<lparr>global_source := 7\<rparr>,
      \<lparr>file' = Addr 3, buffer = 5, format = AL_FORMAT_MONO16, frames = 4410,
        sample_rate = 44100, channels = 1\<rparr>,
      \<lparr>trace =
         [Log_info ''Load audio clip: valid_mono16.wav'', AlGetError AL_NO_ERROR,
          AlGenBuffers (Inr 5), AlGetError AL_NO_ERROR, AlGenSources (Inr 7),
          AlGetError AL_NO_ERROR, Sf_open ''valid_mono16.wav'' (Addr 3),
          Calloc 4410 8 (Addr 4096), Sf_readf_short (Addr 3) (Addr 4096) 4410 4410,
          AlBufferData 5 AL_FORMAT_MONO16 (Addr 4096) 35280 44100 (Some AL_INVALID_VALUE),
          Free (Addr 4096), AlGetError (Some AL_INVALID_VALUE),
          Log_error ''Failed to copy clip file data to clip buffer'',
          Sf_close (Addr 3), AlDeleteSources 7, AlDeleteBuffers 5],
       al_error = AL_NO_ERROR, live = []\<rparr>)"
  by (simp add: audioLoadClip_def format_switch_def clip_calls Let_def fixtures sf_consts)

section \<open>The claims\<close>

text \<open>
  C1. Whatever the backend does, if a step \<open>k\<close> of \<open>audioLoadClip\<close> is the first to fail,
  the call returns \<open>AUDIO_FAILURE\<close>; the buffer, the voice and the file it acquired during
  the call are exactly those of the steps before \<open>k\<close>, so nothing of step \<open>k\<close> or of a
  later step was acquired; and the resources it released are those same ones, in the
  reverse of the order of their acquisition, so nothing else was released.
\<close>

theorem audioLoadClip_rollback:
  assumes fp: "failure_point be = Some k"
      and run: "audioLoadClip be path g clip w = (rc, g', clip', w')"
  shows "rc = AUDIO_FAILURE \<and>
         (\<exists>new. trace w' = trace w @ new \<and>
                acquired new = acquired_before be k \<and>
                released new = rev (acquired_before be k))"
  using fp
proof (cases rule: failure_point_cases)
  case (at_buffer e)
  from run load_at_1 [OF at_buffer(2), of path g clip w] at_buffer show ?thesis
    by (auto simp add: trace_reading)
next
  case (at_voice b e)
  from run load_at_2 [OF at_voice(2-), of path g clip w] at_voice show ?thesis
    by (auto simp add: trace_reading)
next
  case (at_file b s info)
  from run load_at_3 [OF at_file(2-), of path g clip w] at_file show ?thesis
    by (auto simp add: trace_reading)
next
  case (at_scratch b s f info)
  from run load_at_5 [OF at_scratch(2-) refl, of path g clip w] at_scratch show ?thesis
    by (auto simp add: trace_reading)
next
  case (at_read b s f info p got)
  from run load_at_6 [OF at_read(2-) refl, of path g clip w] at_read show ?thesis
    by (auto simp add: trace_reading)
next
  case (at_upload b s f info p e)
  from run load_at_7 [OF at_upload(2-) refl, of path g clip w] at_upload show ?thesis
    by (auto simp add: trace_reading)
qed

theorem audioLoadClip_rollback_witness:
  "failure_point missing_file = Some 3 \<and>
   fst (audioLoadClip missing_file ''missing.wav'' g0 clip0 w0) = AUDIO_FAILURE \<and>
   (\<exists>new. trace (snd (snd (snd (audioLoadClip missing_file ''missing.wav'' g0 clip0 w0))))
             = trace w0 @ new \<and>
          acquired new = [Device_buffer 5, Playback_voice 7] \<and>
          released new = [Playback_voice 7, Device_buffer 5])"
proof -
  have fp: "failure_point missing_file = Some 3"
    by (simp add: failure_point_def fixtures)
  have before: "acquired_before missing_file 3 = [Device_buffer 5, Playback_voice 7]"
    by (simp add: acquired_before_def fixtures)
  obtain rc g' clip' w' where
    run: "audioLoadClip missing_file ''missing.wav'' g0 clip0 w0 = (rc, g', clip', w')"
    by (cases "audioLoadClip missing_file ''missing.wav'' g0 clip0 w0") auto
  from audioLoadClip_rollback [OF fp run] fp show ?thesis
    by (simp add: run before)
qed

text \<open>
  C2. On the truncated file of Scenario C the read of step 6 returns 500 frames for the
  1000 of the header. \<open>audioLoadClip\<close> logs the incomplete read, closes the file, deletes
  the voice and the buffer and returns \<open>AUDIO_FAILURE\<close>; it never calls \<^verbatim>\<open>free\<close>, and the
  scratch block that \<^verbatim>\<open>calloc\<close> returned is still live after the call. Lemma
  \<open>read_failure_never_frees\<close> shows the same for every load that fails at the read.
\<close>

theorem audioLoadClip_truncated_leaks_scratch:
  "audioLoadClip truncated ''truncated.wav'' g0 clip0 w0 =
     (AUDIO_FAILURE, g0\<lparr>global_source := 7\<rparr>,
      \<lparr>file' = Addr 3, buffer = 5, format = AL_FORMAT_MONO16, frames = 1000,
        sample_rate = 44100, channels = 1\<rparr>,
      \<lparr>trace =
         [Log_info ''Load audio clip: truncated.wav'', AlGetError AL_NO_ERROR,
          AlGenBuffers (Inr 5), AlGetError AL_NO_ERROR, AlGenSources (Inr 7),
          AlGetError AL_NO_ERROR, Sf_open ''truncated.wav'' (Addr 3),
          Calloc 1000 8 (Addr 4096), Sf_readf_short (Addr 3) (Addr 4096) 1000 500,
          Log_error ''Failed to read clip file completely'', Sf_close (Addr 3),
          AlDeleteSources 7, AlDeleteBuffers 5],
       al_error = AL_NO_ERROR, live = [Addr 4096]\<rparr>)"
  by (simp add: audioLoadClip_def format_switch_def clip_calls Let_def fixtures sf_consts)

text \<open>
  C3. A 24-bit PCM file is not rejected. Whatever value \<open>junk\<close> the unassigned
  \<^verbatim>\<open>bit_depth\<close> holds, \<open>audioLoadClip\<close> returns \<open>AUDIO_SUCCESS\<close> on it, logs no error, sizes
  the scratch memory and the upload from \<open>junk\<close>, and leaves in \<open>format\<close> what the caller's
  struct held before the call.
\<close>

theorem audioLoadClip_pcm24_not_rejected:
  "audioLoadClip (pcm24\<lparr>indeterminate_bit_depth := junk\<rparr>) ''pcm24.wav'' g0 clip0 w0 =
     (AUDIO_SUCCESS, g0\<lparr>global_source := 7\<rparr>,
      \<lparr>file' = Addr 3, buffer = 5, format = format clip0, frames = 4410,
        sample_rate = 44100, channels = 1\<rparr>,
      \<lparr>trace =
         [Log_info ''Load audio clip: pcm24.wav'', AlGetError AL_NO_ERROR,
          AlGenBuffers (Inr 5), AlGetError AL_NO_ERROR, AlGenSources (Inr 7),
          AlGetError AL_NO_ERROR, Sf_open ''pcm24.wav'' (Addr 3),
          Calloc 4410 (junk sdiv 2) (Addr 4096),
          Sf_readf_short (Addr 3) (Addr 4096) 4410 4410,
          AlBufferData 5 (format clip0) (Addr 4096) ((4410 * junk) sdiv 2) 44100 AL_NO_ERROR,
          Free (Addr 4096), AlGetError AL_NO_ERROR],
       al_error = AL_NO_ERROR, live = []\<rparr>) \<and>
   header_bit_depth (snd (sf_open_ret (pcm24\<lparr>indeterminate_bit_depth := junk\<rparr>))) = None"
  by (simp add: audioLoadClip_def format_switch_def clip_calls Let_def fixtures sf_consts
      header_bit_depth_def)

text \<open>
  C4. On the mono 16-bit file of 4410 frames of Scenario B, \<open>frames * channels *
  bytesPerSample\<close> is 8820. \<open>audioLoadClip\<close> asks \<^verbatim>\<open>calloc\<close> for 4410 members of 8 bytes
  each, which is 35280 bytes, and passes 35280 as the byte length of the upload: both are
  four times the 8820, since the code divides the bit depth by 2 where the bytes of a
  sample are the bit depth divided by 8. Lemma \<open>sizes_are_fourfold\<close> shows the factor of
  four for every successful load of an 8-bit or 16-bit file whose sizes stay below
  \<open>2 ^ 31\<close>.
\<close>

theorem audioLoadClip_valid_mono16_sizes:
  "audioLoadClip valid_mono16 ''valid_mono16.wav'' g0 clip0 w0 =
     (AUDIO_SUCCESS, g0\<lparr>global_source := 7\<rparr>,
      \<lparr>file' = Addr 3, buffer = 5, format = AL_FORMAT_MONO16, frames = 4410,
        sample_rate = 44100, channels = 1\<rparr>,
      \<lparr>trace =
         [Log_info ''Load audio clip: valid_mono16.wav'', AlGetError AL_NO_ERROR,
          AlGenBuffers (Inr 5), AlGetError AL_NO_ERROR, AlGenSources (Inr 7),
          AlGetError AL_NO_ERROR, Sf_open ''valid_mono16.wav'' (Addr 3),
          Calloc 4410 8 (Addr 4096), Sf_readf_short (Addr 3) (Addr 4096) 4410 4410,
          AlBufferData 5 AL_FORMAT_MONO16 (Addr 4096) 35280 44100 AL_NO_ERROR,
          Free (Addr 4096), AlGetError AL_NO_ERROR],
       al_error = AL_NO_ERROR, live = []\<rparr>) \<and>
   header_bit_depth (snd (sf_open_ret valid_mono16)) = Some 16 \<and>
   sf_frames (snd (sf_open_ret valid_mono16)) * sf_channels (snd (sf_open_ret valid_mono16))
     * bytesPerSample 16 = 8820"
  by (simp add: run_valid_mono16)
     (simp add: fixtures sf_consts header_bit_depth_def bytesPerSample_def)

text \<open>
  C5. \<open>audioInitSubsystem\<close> rolls back exactly what it acquired, at each of its three
  failure points: when the device cannot be opened nothing is released; when the context
  cannot be created the device is closed; when the context cannot be made current the
  context is destroyed and then the device is closed; each time the result is
  \<open>AUDIO_FAILURE\<close>. When the three steps succeed the result is \<open>AUDIO_SUCCESS\<close> and nothing is
  released. The calls are given in full, in the order they are made.
\<close>

theorem audioInitSubsystem_partial_rollback:
  fixes be :: backend and g :: globals and w :: world
  defines "dev \<equiv> alcOpenDevice_ret be"
      and "ctx \<equiv> alcCreateContext_ret be"
      and "cur \<equiv> alcMakeContextCurrent_ret be"
  shows
  "(dev = NULL \<longrightarrow>
      audioInitSubsystem be g w =
        (AUDIO_FAILURE, g\<lparr>global_device := NULL\<rparr>,
         w\<lparr>trace := trace w @
            [Log_info ''Initialize audio subsystem'', AlcOpenDevice NULL,
             Log_error ''Failed to open default audio device'']\<rparr>)) \<and>
   (dev \<noteq> NULL \<and> ctx = NULL \<longrightarrow>
      audioInitSubsystem be g w =
        (AUDIO_FAILURE, g\<lparr>global_device := dev, global_context := NULL\<rparr>,
         w\<lparr>trace := trace w @
            [Log_info ''Initialize audio subsystem'', AlcOpenDevice dev,
             AlcCreateContext dev NULL, Log_error ''Failed to create device context'',
             AlcCloseDevice dev]\<rparr>)) \<and>
   (dev \<noteq> NULL \<and> ctx \<noteq> NULL \<and> \<not> cur \<longrightarrow>
      audioInitSubsystem be g w =
        (AUDIO_FAILURE, g\<lparr>global_device := dev, global_context := ctx\<rparr>,
         w\<lparr>trace := trace w @
            [Log_info ''Initialize audio subsystem'', AlcOpenDevice dev,
             AlcCreateContext dev ctx, AlcMakeContextCurrent ctx False,
             Log_error ''Failed to make context current'',
             AlcDestroyContext ctx, AlcCloseDevice dev]\<rparr>)) \<and>
   (dev \<noteq> NULL \<and> ctx \<noteq> NULL \<and> cur \<longrightarrow>
      audioInitSubsystem be g w =
        (AUDIO_SUCCESS, g\<lparr>global_device := dev, global_context := ctx\<rparr>,
         w\<lparr>trace := trace w @
            [Log_info ''Initialize audio subsystem'', AlcOpenDevice dev,
             AlcCreateContext dev ctx, AlcMakeContextCurrent ctx True]\<rparr>))"
  unfolding dev_def ctx_def cur_def
  by (simp add: audioInitSubsystem_def subsystem_calls Let_def)

theorem audioInitSubsystem_partial_rollback_witness:
  "(alcOpenDevice_ret (valid_mono16\<lparr>alcOpenDevice_ret := NULL\<rparr>) = NULL \<and>
    audioInitSubsystem (valid_mono16\<lparr>alcOpenDevice_ret := NULL\<rparr>) g_start w0 =
      (AUDIO_FAILURE, g_start,
       w0\<lparr>trace :=
            [Log_info ''Initialize audio subsystem'', AlcOpenDevice NULL,
             Log_error ''Failed to open default audio device'']\<rparr>)) \<and>
   (alcCreateContext_ret (valid_mono16\<lparr>alcCreateContext_ret := NULL\<rparr>) = NULL \<and>
    audioInitSubsystem (valid_mono16\<lparr>alcCreateContext_ret := NULL\<rparr>) g_start w0 =
      (AUDIO_FAILURE, g_start\<lparr>global_device := Addr 1\<rparr>,
       w0\<lparr>trace :=
            [Log_info ''Initialize audio subsystem'', AlcOpenDevice (Addr 1),
             AlcCreateContext (Addr 1) NULL, Log_error ''Failed to create device context'',
             AlcCloseDevice (Addr 1)]\<rparr>)) \<and>
   (\<not> alcMakeContextCurrent_ret (valid_mono16\<lparr>alcMakeContextCurrent_ret := False\<rparr>) \<and>
    audioInitSubsystem (valid_mono16\<lparr>alcMakeContextCurrent_ret := False\<rparr>) g_start w0 =
      (AUDIO_FAILURE, g0,
       w0\<lparr>trace :=
            [Log_info ''Initialize audio subsystem'', AlcOpenDevice (Addr 1),
             AlcCreateContext (Addr 1) (Addr 2), AlcMakeContextCurrent (Addr 2) False,
             Log_error ''Failed to make context current'',
             AlcDestroyContext (Addr 2), AlcCloseDevice (Addr 1)]\<rparr>)) \<and>
   (alcMakeContextCurrent_ret valid_mono16 \<and>
    audioInitSubsystem valid_mono16 g_start w0 =
      (AUDIO_SUCCESS, g0,
       w0\<lparr>trace :=
            [Log_info ''Initialize audio subsystem'', AlcOpenDevice (Addr 1),
             AlcCreateContext (Addr 1) (Addr 2), AlcMakeContextCurrent (Addr 2) True]\<rparr>))"
  using audioInitSubsystem_partial_rollback
          [of "valid_mono16\<lparr>alcOpenDevice_ret := NULL\<rparr>" g_start w0]
        audioInitSubsystem_partial_rollback
          [of "valid_mono16\<lparr>alcCreateContext_ret := NULL\<rparr>" g_start w0]
        audioInitSubsystem_partial_rollback
          [of "valid_mono16\<lparr>alcMakeContextCurrent_ret := False\<rparr>" g_start w0]
        audioInitSubsystem_partial_rollback [of valid_mono16 g_start w0]
  by (simp add: fixtures)

text \<open>
  C6, amended. When \<open>audioLoadClip\<close> returns \<open>AUDIO_SUCCESS\<close>, the clip holds the frame
  count, the sample rate and the channel count of the header; and when the bit depth and
  the channel count of the header are one of the four entries of the table of section
  4.2, the format of the clip is the tag of that entry. For a header outside the table
  nothing is said of the tag: as worded, for every file that loads, the claim fails, as
  the counterexample below shows.
\<close>

theorem audioLoadClip_success_clip:
  assumes run: "audioLoadClip be path g clip w = (AUDIO_SUCCESS, g', clip', w')"
  shows "frames clip' = sf_frames (snd (sf_open_ret be)) \<and>
         sample_rate clip' = sf_samplerate (snd (sf_open_ret be)) \<and>
         channels clip' = sf_channels (snd (sf_open_ret be)) \<and>
         (\<forall>bits tag. header_bit_depth (snd (sf_open_ret be)) = Some bits \<and>
                     spec_format_table bits (sf_channels (snd (sf_open_ret be))) = Some tag
                     \<longrightarrow> format clip' = tag)"
proof -
  have "failure_point be = None"
  proof (cases "failure_point be")
    case (Some k)
    from load_fails [OF this, of path g clip w] run show ?thesis by simp
  qed simp
  then obtain b s f info p where ok:
    "alGenBuffers_ret be = Inr b" "alGenSources_ret be = Inr s" "sf_open_ret be = (f, info)"
    "f \<noteq> NULL" "calloc_ret be = p" "p \<noteq> NULL" "sf_readf_short_ret be = sf_frames info"
    "alBufferData_ret be = AL_NO_ERROR"
    by (rule no_failure_point)
  define c where "c = clip\<lparr>buffer := b, file' := f, frames := sf_frames info,
                          sample_rate := sf_samplerate info, channels := sf_channels info\<rparr>"
  from load_after_header [OF ok(1-4) run] have clip': "clip' = snd (format_switch be info c)"
    by (simp add: c_def)
  have fields: "frames clip' = sf_frames info" "sample_rate clip' = sf_samplerate info"
    "channels clip' = sf_channels info"
    by (simp_all add: clip' format_switch_keeps c_def)
  have tag: "format clip' = tag"
    if bits: "header_bit_depth info = Some bits"
    and entry: "spec_format_table bits (sf_channels info) = Some tag" for bits tag
  proof -
    from header_bit_depth_cases [OF bits] show ?thesis
    proof
      assume "bits = 8"
      with bits entry show ?thesis
        by (auto simp add: clip' format_switch_8 c_def spec_format_table_def split: if_splits)
    next
      assume "bits = 16"
      with bits entry show ?thesis
        by (auto simp add: clip' format_switch_16 c_def spec_format_table_def split: if_splits)
    qed
  qed
  from fields tag show ?thesis
    by (simp add: ok(3))
qed

theorem audioLoadClip_success_clip_witness:
  "fst (audioLoadClip valid_mono16 ''valid_mono16.wav'' g0 clip0 w0) = AUDIO_SUCCESS \<and>
   header_bit_depth (snd (sf_open_ret valid_mono16)) = Some 16 \<and>
   spec_format_table 16 (sf_channels (snd (sf_open_ret valid_mono16))) = Some AL_FORMAT_MONO16 \<and>
   frames (fst (snd (snd (audioLoadClip valid_mono16 ''valid_mono16.wav'' g0 clip0 w0)))) = 4410 \<and>
   sample_rate (fst (snd (snd (audioLoadClip valid_mono16 ''valid_mono16.wav'' g0 clip0 w0))))
     = 44100 \<and>
   channels (fst (snd (snd (audioLoadClip valid_mono16 ''valid_mono16.wav'' g0 clip0 w0)))) = 1 \<and>
   format (fst (snd (snd (audioLoadClip valid_mono16 ''valid_mono16.wav'' g0 clip0 w0))))
     = AL_FORMAT_MONO16"
proof -
  obtain g' clip' w' where
    run: "audioLoadClip valid_mono16 ''valid_mono16.wav'' g0 clip0 w0 =
            (AUDIO_SUCCESS, g', clip', w')"
    using run_valid_mono16 by blast
  have bits: "header_bit_depth (snd (sf_open_ret valid_mono16)) = Some 16"
    by (simp add: header_bit_depth_def fixtures sf_consts)
  have entry: "spec_format_table 16 (sf_channels (snd (sf_open_ret valid_mono16)))
                 = Some AL_FORMAT_MONO16"
    by (simp add: spec_format_table_def fixtures)
  from audioLoadClip_success_clip [OF run] bits entry
  have "frames clip' = 4410 \<and> sample_rate clip' = 44100 \<and> channels clip' = 1 \<and>
        format clip' = AL_FORMAT_MONO16"
    by (simp add: fixtures)
  with bits entry show ?thesis
    by (simp add: run)
qed

text \<open>
  C6 as worded fails on the 16-bit file of three channels: the load succeeds, the table
  of section 4.2 has no entry for 16 bits and three channels, and the clip is tagged
  \<open>AL_FORMAT_STEREO16\<close>, so its tag is not one the table assigns to this header.
\<close>

theorem audioLoadClip_success_tag_outside_table_counterexample:
  "fst (audioLoadClip three_channels ''surround.wav'' g0 clip0 w0) = AUDIO_SUCCESS \<and>
   header_bit_depth (snd (sf_open_ret three_channels)) = Some 16 \<and>
   sf_channels (snd (sf_open_ret three_channels)) = 3 \<and>
   spec_format_table 16 (sf_channels (snd (sf_open_ret three_channels))) = None \<and>
   format (fst (snd (snd (audioLoadClip three_channels ''surround.wav'' g0 clip0 w0))))
     = AL_FORMAT_STEREO16 \<and>
   spec_format_table 16 (sf_channels (snd (sf_open_ret three_channels)))
     \<noteq> Some (format (fst (snd (snd (audioLoadClip three_channels ''surround.wav''
                                        g0 clip0 w0)))))"
proof -
  have bits: "header_bit_depth (snd (sf_open_ret three_channels)) = Some 16"
    by (simp add: header_bit_depth_def fixtures sf_consts)
  have chans: "sf_channels (snd (sf_open_ret three_channels)) = 3"
    by (simp add: fixtures)
  have entry: "spec_format_table 16 3 = None"
    by (simp add: spec_format_table_def)
  from bits chans entry show ?thesis
    by (simp add: run_three_channels)
qed

text \<open>
  C8. Once the buffer, the voice and the file are there, so that the header is read, an
  8-bit or 16-bit file gets the mono tag of its bit depth when its channel count is 1
  and the stereo tag for every other channel count, whether the load then succeeds or
  fails at a later step. No channel count is refused: when no step fails the result is
  \<open>AUDIO_SUCCESS\<close>, as for the file of three channels of the witness.
\<close>

theorem audioLoadClip_stereo_unless_one_channel:
  assumes run: "audioLoadClip be path g clip w = (rc, g', clip', w')"
      and header: "failure_point be \<notin> {Some 1, Some 2, Some 3}"
      and bits: "header_bit_depth (snd (sf_open_ret be)) = Some bits"
  shows "(sf_channels (snd (sf_open_ret be)) = 1 \<longrightarrow>
            format clip' = (if bits = 8 then AL_FORMAT_MONO8 else AL_FORMAT_MONO16)) \<and>
         (sf_channels (snd (sf_open_ret be)) \<noteq> 1 \<longrightarrow>
            format clip' = (if bits = 8 then AL_FORMAT_STEREO8 else AL_FORMAT_STEREO16)) \<and>
         (failure_point be = None \<longrightarrow> rc = AUDIO_SUCCESS)"
proof -
  from header obtain b s f info where ok:
    "alGenBuffers_ret be = Inr b" "alGenSources_ret be = Inr s" "sf_open_ret be = (f, info)"
    "f \<noteq> NULL"
    by (rule header_read)
  define c where "c = clip\<lparr>buffer := b, file' := f, frames := sf_frames info,
                          sample_rate := sf_samplerate info, channels := sf_channels info\<rparr>"
  from load_after_header [OF ok run] have clip': "clip' = snd (format_switch be info c)"
    by (simp add: c_def)
  from bits ok(3) have bits': "header_bit_depth info = Some bits"
    by simp
  have tags: "format clip' =
      (if sf_channels info = 1
       then (if bits = 8 then AL_FORMAT_MONO8 else AL_FORMAT_MONO16)
       else (if bits = 8 then AL_FORMAT_STEREO8 else AL_FORMAT_STEREO16))"
    using header_bit_depth_cases [OF bits']
  proof
    assume "bits = 8"
    with bits' show ?thesis
      by (simp add: clip' format_switch_8 c_def)
  next
    assume "bits = 16"
    with bits' show ?thesis
      by (simp add: clip' format_switch_16 c_def)
  qed
  have "rc = AUDIO_SUCCESS" if "failure_point be = None"
    using load_succeeds [OF that, of path g clip w] run by simp
  with tags show ?thesis
    by (simp add: ok(3))
qed

theorem audioLoadClip_stereo_unless_one_channel_witness:
  "failure_point three_channels = None \<and>
   header_bit_depth (snd (sf_open_ret three_channels)) = Some 16 \<and>
   sf_channels (snd (sf_open_ret three_channels)) = 3 \<and>
   fst (audioLoadClip three_channels ''surround.wav'' g0 clip0 w0) = AUDIO_SUCCESS \<and>
   format (fst (snd (snd (audioLoadClip three_channels ''surround.wav'' g0 clip0 w0))))
     = AL_FORMAT_STEREO16"
proof -
  obtain rc g' clip' w' where
    run: "audioLoadClip three_channels ''surround.wav'' g0 clip0 w0 = (rc, g', clip', w')"
    by (cases "audioLoadClip three_channels ''surround.wav'' g0 clip0 w0") auto
  have fp: "failure_point three_channels = None"
    by (simp add: failure_point_def fixtures)
  then have header: "failure_point three_channels \<notin> {Some 1, Some 2, Some 3}"
    by simp
  have bits: "header_bit_depth (snd (sf_open_ret three_channels)) = Some 16"
    by (simp add: header_bit_depth_def fixtures sf_consts)
  have chans: "sf_channels (snd (sf_open_ret three_channels)) = 3"
    by (simp add: fixtures)
  from audioLoadClip_stereo_unless_one_channel [OF run header bits] fp chans
  have "rc = AUDIO_SUCCESS \<and> format clip' = AL_FORMAT_STEREO16"
    by simp
  with fp bits chans show ?thesis
    by (simp add: run)
qed

text \<open>
  C9. \<open>audioUnloadClip\<close> is the very rollback of a failed upload: the two enter the same
  statements of \<open>internal_audio_clip_cleanup\<close>, and each closes the file of the clip,
  deletes the global voice and deletes the buffer of the clip, in that order, and does
  nothing else. When the upload is the step of \<open>audioLoadClip\<close> that fails, what the call
  does after logging the failure is what \<open>audioUnloadClip\<close> does on the clip and the
  globals it leaves.
\<close>

theorem audioUnloadClip_is_upload_rollback:
  "audioUnloadClip g clip w =
     internal_audio_clip_cleanup IAC_COPY_CLIP_FILE_DATA_TO_CLIP_BUFFER_FAILURE g clip w \<and>
   audioUnloadClip g clip w =
     w\<lparr>trace := trace w @ [Sf_close (file' clip), AlDeleteSources (global_source g),
                            AlDeleteBuffers (buffer clip)]\<rparr> \<and>
   (failure_point be = Some 7 \<and> audioLoadClip be path g clip w = (rc, g', clip', w') \<longrightarrow>
      (\<exists>pre. last (trace pre) = Log_error ''Failed to copy clip file data to clip buffer'' \<and>
             w' = audioUnloadClip g' clip' pre))"
proof (intro conjI impI)
  show "audioUnloadClip g clip w =
     internal_audio_clip_cleanup IAC_COPY_CLIP_FILE_DATA_TO_CLIP_BUFFER_FAILURE g clip w"
    by (simp add: audioUnloadClip_def)
  show unload: "audioUnloadClip g clip w =
     w\<lparr>trace := trace w @ [Sf_close (file' clip), AlDeleteSources (global_source g),
                            AlDeleteBuffers (buffer clip)]\<rparr>" for g clip w
    by (simp add: audioUnloadClip_def clip_calls)
  assume "failure_point be = Some 7 \<and> audioLoadClip be path g clip w = (rc, g', clip', w')"
  then have fp: "failure_point be = Some 7"
    and run: "audioLoadClip be path g clip w = (rc, g', clip', w')"
    by simp_all
  from fp show "\<exists>pre. last (trace pre) =
        Log_error ''Failed to copy clip file data to clip buffer'' \<and>
        w' = audioUnloadClip g' clip' pre"
  proof (cases rule: failure_point_cases)
    case (at_upload b s f info p e)
    define sw where "sw = format_switch be info
              (clip\<lparr>buffer := b, file' := f, frames := sf_frames info,
                    sample_rate := sf_samplerate info, channels := sf_channels info\<rparr>)"
    define pre where "pre =
      w\<lparr>trace := trace w @
           [Log_info (''Load audio clip: '' @ path), AlGetError (al_error w),
            AlGenBuffers (Inr b), AlGetError AL_NO_ERROR,
            AlGenSources (Inr s), AlGetError AL_NO_ERROR,
            Sf_open path f,
            Calloc (sf_frames info * sf_channels info) (fst sw sdiv 2) p,
            Sf_readf_short f p (sf_frames info) (sf_frames info),
            AlBufferData b (format (snd sw)) p
              ((sf_frames info * sf_channels info * fst sw) sdiv 2) (sf_samplerate info)
              (Some e),
            Free p, AlGetError (Some e),
            Log_error ''Failed to copy clip file data to clip buffer''],
        al_error := AL_NO_ERROR,
        live := live w\<rparr>"
    from run load_at_7 [where path = path and g = g and clip = clip and w = w,
        OF at_upload(2-) sw_def]
    have "w' = audioUnloadClip g' clip' pre"
      by (auto simp add: unload pre_def sw_def format_switch_keeps)
    moreover have "last (trace pre) =
        Log_error ''Failed to copy clip file data to clip buffer''"
      by (simp add: pre_def)
    ultimately show ?thesis by blast
  qed simp_all
qed

theorem audioUnloadClip_is_upload_rollback_witness:
  "failure_point upload_rejected = Some 7 \<and>
   (\<exists>pre. last (trace pre) = Log_error ''Failed to copy clip file data to clip buffer'' \<and>
          snd (snd (snd (audioLoadClip upload_rejected ''valid_mono16.wav'' g0 clip0 w0))) =
            audioUnloadClip
              (fst (snd (audioLoadClip upload_rejected ''valid_mono16.wav'' g0 clip0 w0)))
              (fst (snd (snd (audioLoadClip upload_rejected ''valid_mono16.wav'' g0 clip0 w0))))
              pre)"
proof -
  obtain rc g' clip' w' where
    run: "audioLoadClip upload_rejected ''valid_mono16.wav'' g0 clip0 w0 = (rc, g', clip', w')"
    by (cases "audioLoadClip upload_rejected ''valid_mono16.wav'' g0 clip0 w0") auto
  have fp: "failure_point upload_rejected = Some 7"
    by (simp add: failure_point_def fixtures)
  from audioUnloadClip_is_upload_rollback
         [of g0 clip0 w0 upload_rejected "''valid_mono16.wav''" rc g' clip' w'] fp run
  show ?thesis
    by simp
qed

subsection \<open>The playback loop\<close>

lemmas play_calls = emit_def alSourcei_def alSourcePlay_def alGetSourcei_def sleep_def

lemma loop_round:
  "audioPlayClip_loop be g i w =
     (if alGetSourcei_ret be i = AL_PLAYING
      then audioPlayClip_loop be g (Suc i)
             (w\<lparr>trace := trace w @ [Sleep 1, AlGetSourcei (global_source g) AL_SOURCE_STATE
                                               (alGetSourcei_ret be i)]\<rparr>)
      else Some (w\<lparr>trace := trace w @ [Sleep 1, AlGetSourcei (global_source g) AL_SOURCE_STATE
                                                (alGetSourcei_ret be i)]\<rparr>))"
  by (subst audioPlayClip_loop.simps) (simp add: play_calls Let_def)

lemma polls_0: "polls be g i 0 = []"
  by (simp add: polls_def)

lemma polls_Suc:
  "polls be g i (Suc n) =
     [Sleep 1, AlGetSourcei (global_source g) AL_SOURCE_STATE (alGetSourcei_ret be i)]
     @ polls be g (Suc i) n"
proof -
  have "[i..<i + Suc n] = i # [Suc i..<Suc i + n]"
    by (simp add: upt_conv_Cons)
  then show ?thesis
    by (simp add: polls_def)
qed

lemma loop_returns:
  assumes "alGetSourcei_ret be (i + n) \<noteq> AL_PLAYING"
      and "\<forall>k<n. alGetSourcei_ret be (i + k) = AL_PLAYING"
  shows "audioPlayClip_loop be g i w = Some (w\<lparr>trace := trace w @ polls be g i (Suc n)\<rparr>)"
  using assms
proof (induction n arbitrary: i w)
  case 0
  then show ?case
    by (subst loop_round) (simp add: polls_Suc polls_0)
next
  case (Suc n)
  from Suc.prems(2) have now: "alGetSourcei_ret be i = AL_PLAYING"
    by (metis add.right_neutral zero_less_Suc)
  from Suc.prems(1) have last: "alGetSourcei_ret be (Suc i + n) \<noteq> AL_PLAYING"
    by simp
  have before: "\<forall>k<n. alGetSourcei_ret be (Suc i + k) = AL_PLAYING"
  proof (intro allI impI)
    fix k assume "k < n"
    then have "Suc k < Suc n" by simp
    with Suc.prems(2) have "alGetSourcei_ret be (i + Suc k) = AL_PLAYING" by blast
    then show "alGetSourcei_ret be (Suc i + k) = AL_PLAYING" by simp
  qed
  show ?case
    by (subst loop_round) (simp add: now Suc.IH [OF last before] polls_Suc [of be g i])
qed

lemma loop_returned:
  assumes "audioPlayClip_loop be g i w = Some w'"
  shows "\<exists>n. alGetSourcei_ret be (i + n) \<noteq> AL_PLAYING \<and>
             (\<forall>k<n. alGetSourcei_ret be (i + k) = AL_PLAYING)"
  using assms
proof (induction rule: audioPlayClip_loop.raw_induct [rotated, consumes 1, case_names round])
  case (round loop be g i w w')
  show ?case
  proof (cases "alGetSourcei_ret be i = AL_PLAYING")
    case False
    then have "alGetSourcei_ret be (i + 0) \<noteq> AL_PLAYING \<and>
               (\<forall>k<0. alGetSourcei_ret be (i + k) = AL_PLAYING)" by simp
    then show ?thesis by blast
  next
    case True
    with round(2) have next_round: "loop be g (Suc i)
        (w\<lparr>trace := trace w @ [Sleep 1, AlGetSourcei (global_source g) AL_SOURCE_STATE
                                          (alGetSourcei_ret be i)]\<rparr>) = Some w'"
      by (simp add: play_calls Let_def)
    from round(1) [OF next_round] obtain n where
      n: "alGetSourcei_ret be (Suc i + n) \<noteq> AL_PLAYING"
         "\<forall>k<n. alGetSourcei_ret be (Suc i + k) = AL_PLAYING" by blast
    have "alGetSourcei_ret be (i + Suc n) \<noteq> AL_PLAYING" using n(1) by simp
    moreover have "\<forall>k<Suc n. alGetSourcei_ret be (i + k) = AL_PLAYING"
    proof (intro allI impI)
      fix k assume k: "k < Suc n"
      show "alGetSourcei_ret be (i + k) = AL_PLAYING"
      proof (cases k)
        case 0 with True show ?thesis by simp
      next
        case (Suc j)
        with k have "j < n" by simp
        with n(2) have "alGetSourcei_ret be (Suc i + j) = AL_PLAYING" by blast
        with Suc show ?thesis by simp
      qed
    qed
    ultimately show ?thesis by blast
  qed
qed

lemma play_start:
  "audioPlayClip be g clip w =
     audioPlayClip_loop be g 0
       (w\<lparr>trace := trace w @ [AlSourcei (global_source g) AL_BUFFER (buffer clip),
                              AlSourcePlay (global_source g)]\<rparr>)"
  by (simp add: audioPlayClip_def play_calls Let_def)

text \<open>
  C7. \<open>audioPlayClip\<close> attaches the buffer of the clip to the voice and starts it; then
  each round of its loop sleeps one second and asks the voice for its state. If the
  \<open>n\<close>-th answer is the first that is not \<open>AL_PLAYING\<close>, the call returns after exactly
  \<open>n + 1\<close> rounds and has made no other call. It returns only if some answer is not
  \<open>AL_PLAYING\<close>: while the voice goes on answering \<open>AL_PLAYING\<close> the call does not return,
  for there is no other way out of the loop.
\<close>

theorem audioPlayClip_polls_until_stopped:
  "(\<forall>n. alGetSourcei_ret be n \<noteq> AL_PLAYING \<and> (\<forall>k<n. alGetSourcei_ret be k = AL_PLAYING) \<longrightarrow>
        audioPlayClip be g clip w =
          Some (w\<lparr>trace := trace w @
                  [AlSourcei (global_source g) AL_BUFFER (buffer clip),
                   AlSourcePlay (global_source g)] @ polls be g 0 (Suc n)\<rparr>)) \<and>
   (\<forall>w'. audioPlayClip be g clip w = Some w' \<longrightarrow>
        (\<exists>n. alGetSourcei_ret be n \<noteq> AL_PLAYING \<and>
             (\<forall>k<n. alGetSourcei_ret be k = AL_PLAYING))) \<and>
   ((\<forall>k. alGetSourcei_ret be k = AL_PLAYING) \<longrightarrow> audioPlayClip be g clip w = None)"
proof (intro conjI allI impI)
  fix n
  assume "alGetSourcei_ret be n \<noteq> AL_PLAYING \<and> (\<forall>k<n. alGetSourcei_ret be k = AL_PLAYING)"
  then have "alGetSourcei_ret be (0 + n) \<noteq> AL_PLAYING"
    and "\<forall>k<n. alGetSourcei_ret be (0 + k) = AL_PLAYING"
    by simp_all
  from loop_returns [OF this]
  show "audioPlayClip be g clip w =
          Some (w\<lparr>trace := trace w @
                  [AlSourcei (global_source g) AL_BUFFER (buffer clip),
                   AlSourcePlay (global_source g)] @ polls be g 0 (Suc n)\<rparr>)"
    by (simp add: play_start)
next
  fix w'
  assume "audioPlayClip be g clip w = Some w'"
  then have "\<exists>n. alGetSourcei_ret be (0 + n) \<noteq> AL_PLAYING \<and>
                 (\<forall>k<n. alGetSourcei_ret be (0 + k) = AL_PLAYING)"
    unfolding play_start by (rule loop_returned)
  then show "\<exists>n. alGetSourcei_ret be n \<noteq> AL_PLAYING \<and>
                 (\<forall>k<n. alGetSourcei_ret be k = AL_PLAYING)"
    by simp
next
  assume playing: "\<forall>k. alGetSourcei_ret be k = AL_PLAYING"
  show "audioPlayClip be g clip w = None"
  proof (cases "audioPlayClip be g clip w")
    case (Some w')
    then have "\<exists>n. alGetSourcei_ret be (0 + n) \<noteq> AL_PLAYING \<and>
                   (\<forall>k<n. alGetSourcei_ret be (0 + k) = AL_PLAYING)"
      unfolding play_start by (rule loop_returned)
    with playing show ?thesis by simp
  qed simp
qed

theorem audioPlayClip_polls_until_stopped_witness:
  "alGetSourcei_ret valid_mono16 0 = AL_PLAYING \<and>
   alGetSourcei_ret valid_mono16 1 = AL_PLAYING \<and>
   alGetSourcei_ret valid_mono16 2 \<noteq> AL_PLAYING \<and>
   audioPlayClip valid_mono16 g1 clip1 w0 =
     Some (w0\<lparr>trace :=
              [AlSourcei 7 AL_BUFFER 5, AlSourcePlay 7,
               Sleep 1, AlGetSourcei 7 AL_SOURCE_STATE AL_PLAYING,
               Sleep 1, AlGetSourcei 7 AL_SOURCE_STATE AL_PLAYING,
               Sleep 1, AlGetSourcei 7 AL_SOURCE_STATE AL_STOPPED]\<rparr>) \<and>
   (\<forall>k. alGetSourcei_ret never_stops k = AL_PLAYING) \<and>
   audioPlayClip never_stops g1 clip1 w0 = None"
proof -
  have answers: "alGetSourcei_ret valid_mono16 0 = AL_PLAYING"
    "alGetSourcei_ret valid_mono16 1 = AL_PLAYING"
    "alGetSourcei_ret valid_mono16 2 \<noteq> AL_PLAYING"
    by (simp_all add: fixtures AL_PLAYING_def AL_STOPPED_def)
  have first: "alGetSourcei_ret valid_mono16 2 \<noteq> AL_PLAYING \<and>
               (\<forall>k<2. alGetSourcei_ret valid_mono16 k = AL_PLAYING)"
    by (simp add: fixtures AL_PLAYING_def AL_STOPPED_def)
  have rounds: "polls valid_mono16 g1 0 (Suc 2) =
      [Sleep 1, AlGetSourcei 7 AL_SOURCE_STATE AL_PLAYING,
       Sleep 1, AlGetSourcei 7 AL_SOURCE_STATE AL_PLAYING,
       Sleep 1, AlGetSourcei 7 AL_SOURCE_STATE AL_STOPPED]"
    by (simp add: polls_def upt_rec fixtures)
  have never: "\<forall>k. alGetSourcei_ret never_stops k = AL_PLAYING"
    by (simp add: fixtures)
  from audioPlayClip_polls_until_stopped [of valid_mono16 g1 clip1 w0] first rounds
  have "audioPlayClip valid_mono16 g1 clip1 w0 =
     Some (w0\<lparr>trace :=
              [AlSourcei 7 AL_BUFFER 5, AlSourcePlay 7,
               Sleep 1, AlGetSourcei 7 AL_SOURCE_STATE AL_PLAYING,
               Sleep 1, AlGetSourcei 7 AL_SOURCE_STATE AL_PLAYING,
               Sleep 1, AlGetSourcei 7 AL_SOURCE_STATE AL_STOPPED]\<rparr>)"
    by (simp add: g1_def clip1_def w0_def)
  moreover from audioPlayClip_polls_until_stopped [of never_stops g1 clip1 w0] never
  have "audioPlayClip never_stops g1 clip1 w0 = None"
    by simp
  ultimately show ?thesis
    using answers never by simp
qed

text \<open>
  C10. The loop of \<open>audioPlayClip\<close> tests the state of the voice at its end: the first
  \<^verbatim>\<open>sleep(1)\<close> and the first query are made in every call, before anything depends on
  the state. So a call on a voice that is not playing when first asked still sleeps one
  second and asks once before it returns, and the calls of every call that returns begin
  with attach, play, sleep, query.
\<close>

theorem audioPlayClip_sleeps_before_first_query:
  "audioPlayClip be g clip w =
     (if alGetSourcei_ret be 0 = AL_PLAYING
      then audioPlayClip_loop be g 1
             (w\<lparr>trace := trace w @
                  [AlSourcei (global_source g) AL_BUFFER (buffer clip),
                   AlSourcePlay (global_source g), Sleep 1,
                   AlGetSourcei (global_source g) AL_SOURCE_STATE (alGetSourcei_ret be 0)]\<rparr>)
      else Some (w\<lparr>trace := trace w @
                  [AlSourcei (global_source g) AL_BUFFER (buffer clip),
                   AlSourcePlay (global_source g), Sleep 1,
                   AlGetSourcei (global_source g) AL_SOURCE_STATE (alGetSourcei_ret be 0)]\<rparr>)) \<and>
   (alGetSourcei_ret be 0 \<noteq> AL_PLAYING \<longrightarrow>
      audioPlayClip be g clip w =
        Some (w\<lparr>trace := trace w @
                [AlSourcei (global_source g) AL_BUFFER (buffer clip),
                 AlSourcePlay (global_source g), Sleep 1,
                 AlGetSourcei (global_source g) AL_SOURCE_STATE (alGetSourcei_ret be 0)]\<rparr>)) \<and>
   (\<forall>w'. audioPlayClip be g clip w = Some w' \<longrightarrow>
      (\<exists>rest. trace w' = trace w @
                [AlSourcei (global_source g) AL_BUFFER (buffer clip),
                 AlSourcePlay (global_source g), Sleep 1,
                 AlGetSourcei (global_source g) AL_SOURCE_STATE (alGetSourcei_ret be 0)]
                @ rest))"
proof (intro conjI allI impI)
  show first_round: "audioPlayClip be g clip w =
     (if alGetSourcei_ret be 0 = AL_PLAYING
      then audioPlayClip_loop be g 1
             (w\<lparr>trace := trace w @
                  [AlSourcei (global_source g) AL_BUFFER (buffer clip),
                   AlSourcePlay (global_source g), Sleep 1,
                   AlGetSourcei (global_source g) AL_SOURCE_STATE (alGetSourcei_ret be 0)]\<rparr>)
      else Some (w\<lparr>trace := trace w @
                  [AlSourcei (global_source g) AL_BUFFER (buffer clip),
                   AlSourcePlay (global_source g), Sleep 1,
                   AlGetSourcei (global_source g) AL_SOURCE_STATE (alGetSourcei_ret be 0)]\<rparr>))"
    unfolding play_start by (subst loop_round) simp
  show "audioPlayClip be g clip w =
        Some (w\<lparr>trace := trace w @
                [AlSourcei (global_source g) AL_BUFFER (buffer clip),
                 AlSourcePlay (global_source g), Sleep 1,
                 AlGetSourcei (global_source g) AL_SOURCE_STATE (alGetSourcei_ret be 0)]\<rparr>)"
    if "alGetSourcei_ret be 0 \<noteq> AL_PLAYING"
    using that first_round by simp
  fix w'
  assume returned: "audioPlayClip be g clip w = Some w'"
  then obtain n where n: "alGetSourcei_ret be (0 + n) \<noteq> AL_PLAYING"
    "\<forall>k<n. alGetSourcei_ret be (0 + k) = AL_PLAYING"
    unfolding play_start by (blast dest: loop_returned)
  from loop_returns [OF n] returned
  have "trace w' = trace w @
          [AlSourcei (global_source g) AL_BUFFER (buffer clip),
           AlSourcePlay (global_source g)] @ polls be g 0 (Suc n)"
    by (auto simp add: play_start)
  then show "\<exists>rest. trace w' = trace w @
                [AlSourcei (global_source g) AL_BUFFER (buffer clip),
                 AlSourcePlay (global_source g), Sleep 1,
                 AlGetSourcei (global_source g) AL_SOURCE_STATE (alGetSourcei_ret be 0)]
                @ rest"
    by (simp add: polls_Suc)
qed

theorem audioPlayClip_sleeps_before_first_query_witness:
  "alGetSourcei_ret already_stopped 0 \<noteq> AL_PLAYING \<and>
   audioPlayClip already_stopped g1 clip1 w0 =
     Some (w0\<lparr>trace :=
              [AlSourcei 7 AL_BUFFER 5, AlSourcePlay 7,
               Sleep 1, AlGetSourcei 7 AL_SOURCE_STATE AL_STOPPED]\<rparr>)"
proof -
  have stopped: "alGetSourcei_ret already_stopped 0 \<noteq> AL_PLAYING"
    by (simp add: fixtures AL_PLAYING_def AL_STOPPED_def)
  from audioPlayClip_sleeps_before_first_query [of already_stopped g1 clip1 w0] stopped
  have "audioPlayClip already_stopped g1 clip1 w0 =
        Some (w0\<lparr>trace := trace w0 @
                [AlSourcei (global_source g1) AL_BUFFER (buffer clip1),
                 AlSourcePlay (global_source g1), Sleep 1,
                 AlGetSourcei (global_source g1) AL_SOURCE_STATE
                   (alGetSourcei_ret already_stopped 0)]\<rparr>)"
    by blast
  with stopped show ?thesis
    by (simp add: fixtures)
qed

end
